theory Spec2Isabelle
  imports Main "HOL-Library.State_Monad"
begin

section \<open>Taxonomy store: frames on a heap\<close>

text \<open>
  The data file builds its tree out of plain JavaScript objects that are created first and
  linked afterwards by assignments to \<open>parent.children\<close>. Objects are shared by reference,
  so the model keeps them in an explicit heap: a reference is an index into the list of
  all objects allocated so far, and allocation appends.
\<close>

type_synonym ref = nat

text \<open>
  A frame is the object literal of \<open>createTaxonFrame\<close>. The fields \<open>domain\<close> and
  \<open>inheritedDomain\<close> exist only on some objects: \<open>None\<close> is the absent property.
  \<open>children\<close> lists the own properties of the children object in the order in which
  \<open>Object.keys\<close> and \<open>Object.entries\<close> enumerate them. \<open>childrenPrototype\<close> is the
  prototype of the children object: \<open>None\<close> is \<open>Object.prototype\<close>, which the literal \<open>{}\<close>
  gives it, and \<open>Some r\<close> is the object \<open>r\<close> after an assignment to the key \<open>__proto__\<close>.
\<close>

record frame =
  name :: string
  rank :: string
  description :: "string option"
  attributes :: "(string \<times> string) list"
  children :: "(string \<times> ref) list"
  childrenPrototype :: "ref option"
  domain :: "string option"
  inheritedDomain :: "string option"

type_synonym heap = "frame list"

text \<open>
  The first parameter of \<open>createTaxonFrame\<close>, destructured as
  \<open>{ name, rank, description, attributes = {} }\<close>. A property the caller leaves out is
  \<open>None\<close> (JavaScript's \<open>undefined\<close>).
\<close>

record options =
  optName :: string
  optRank :: string
  optDescription :: "string option"
  optAttributes :: "(string \<times> string) list option"

text \<open>
  JavaScript truthiness of an optional string, as tested by \<open>if (parentFrame.domain)\<close> and by
  \<open>data.description && ...\<close>: \<open>undefined\<close> and the empty string are falsy.
\<close>

fun truthy :: "string option \<Rightarrow> bool" where
  "truthy None = False"
| "truthy (Some s) = (s \<noteq> [])"

text \<open>
  Statements that read or write objects are computations in the state monad over the
  heap. \<open>createTaxonFrame\<close> allocates the new object and returns its reference. The
  parameter \<open>parentFrame\<close> defaults to \<open>null\<close>, here \<open>None\<close>; an object reference is
  always truthy, so \<open>if (parentFrame)\<close> is the case distinction on the option.
\<close>

definition createTaxonFrame :: "options \<Rightarrow> ref option \<Rightarrow> (heap, ref) state" where
  "createTaxonFrame opts parentFrame = State (\<lambda>h.
      let frame = \<lparr>name = optName opts,
                   rank = optRank opts,
                   description = optDescription opts,
                   attributes = (case optAttributes opts of None \<Rightarrow> [] | Some a \<Rightarrow> a),
                   children = [],
                   childrenPrototype = None,
                   domain = None,
                   inheritedDomain = None\<rparr>;
          frame = (case parentFrame of
                     None \<Rightarrow> frame
                   | Some p \<Rightarrow>
                       if truthy (domain (h ! p))
                       then frame\<lparr>inheritedDomain := domain (h ! p)\<rparr>
                       else frame)
      in (length h, h @ [frame]))"

text \<open>The assignment \<open>obj.domain = v\<close>.\<close>

definition setDomain :: "ref \<Rightarrow> string \<Rightarrow> (heap, unit) state" where
  "setDomain p v = State (\<lambda>h. ((), h[p := (h ! p)\<lparr>domain := Some v\<rparr>]))"

subsection \<open>Property assignment on the children object\<close>

text \<open>
  The own properties after \<open>parent.children[key] = child\<close> on an ordinary object. Under
  the key \<open>__proto__\<close> the assignment runs the setter inherited from \<open>Object.prototype\<close> and
  creates no own property. Under any other key an existing own property keeps its place
  and gets the new value; a new property whose key is an array index (a canonical decimal
  numeral below \<open>2^32 - 1\<close>) is enumerated among the index keys in ascending numeric
  order, ahead of all other keys; any other new key is enumerated last.
\<close>

definition is_digit :: "char \<Rightarrow> bool" where
  "is_digit c = (c \<in> set ''0123456789'')"

definition decimal :: "string \<Rightarrow> nat" where
  "decimal k = foldl (\<lambda>n c. 10 * n + (of_char c - 48)) 0 k"

definition is_array_index :: "string \<Rightarrow> bool" where
  "is_array_index k =
     (case k of
        [] \<Rightarrow> False
      | c # cs \<Rightarrow>
          if c = CHR ''0'' then cs = []
          else list_all is_digit k \<and> decimal k < 4294967295)"

fun insert_index :: "string \<Rightarrow> 'a \<Rightarrow> (string \<times> 'a) list \<Rightarrow> (string \<times> 'a) list" where
  "insert_index k v [] = [(k, v)]"
| "insert_index k v (e # es) =
     (if is_array_index (fst e) \<and> decimal (fst e) < decimal k
      then e # insert_index k v es
      else (k, v) # e # es)"

fun overwrite :: "string \<Rightarrow> 'a \<Rightarrow> (string \<times> 'a) list \<Rightarrow> (string \<times> 'a) list" where
  "overwrite k v [] = []"
| "overwrite k v (e # es) =
     (if fst e = k then (k, v) # es else e # overwrite k v es)"

definition set_property :: "string \<Rightarrow> 'a \<Rightarrow> (string \<times> 'a) list \<Rightarrow> (string \<times> 'a) list" where
  "set_property k v es =
     (if k = ''__proto__'' then es
      else if k \<in> fst ` set es then overwrite k v es
      else if is_array_index k then insert_index k v es
      else es @ [(k, v)])"

text \<open>The value of the own property under a key, if there is one.\<close>

definition get_property :: "(string \<times> 'a) list \<Rightarrow> string \<Rightarrow> 'a option" where
  "get_property es k = map_of es k"

text \<open>
  The linking statements \<open>parent.children.Key = child\<close> and
  \<open>parent.children["Key"] = child\<close> of the data file. Under the key \<open>__proto__\<close> the setter
  makes the child, an object, the prototype of the children object; a prototype chain
  from a children object ends after one frame, so the setter never meets a cycle and
  the assignment never throws.
\<close>

definition attachChild :: "ref \<Rightarrow> string \<Rightarrow> ref \<Rightarrow> (heap, unit) state" where
  "attachChild p key child = State (\<lambda>h.
     ((), h[p := (h ! p)
              \<lparr>children := set_property key child (children (h ! p)),
               childrenPrototype :=
                 (if key = ''__proto__'' then Some child else childrenPrototype (h ! p))\<rparr>]))"

subsection \<open>The data file\<close>

text \<open>
  The module body, statement by statement: every \<open>const x = createTaxonFrame(...)\<close>, the
  assignment of \<open>kingdomFungi.domain\<close>, and the linking assignments, in source order.
  The export \<open>fungiTaxonomy\<close> is the reference \<open>kingdomFungi\<close>; \<open>fungiHeap\<close> is the heap
  the module leaves behind. The description literals are named constants, one per frame.
\<close>

definition kingdomFungi_description :: string where
  "kingdomFungi_description =
     ''Eukaryotic (with true nuclei); acellular, unicellular, or multicellular with hyphae; cell walls composed of chitin and/or polysaccharides; at least 99,000 species described.''"

definition phylumChytridiomycota_description :: string where
  "phylumChytridiomycota_description =
     ''Mainly aquatic, some are parasitic or saprotrophic; unicellular or filamentous; chitin and glucan cell wall; primarily asexual reproduction by motile spores (zoospores); contains 2 classes.''"

definition classChytridiomycetes_description :: string where
  "classChytridiomycetes_description =
     ''Aquatic parasitic (on algae, fungi, or flowering plants) or saprotrophic; unicellular or filamentous; motile cells characterized by a single posterior flagellum; monocentric thallus or polycentric rhizomycelial; contains 3 orders.''"

definition orderChytridiales_description :: string where
  "orderChytridiales_description =
     ''Mainly found in soil; examples of genera include Chytridium, Chytriomyces, and Nowakowskiella.''"

definition genusChytridium_description :: string where
  "genusChytridium_description =
     ''A genus of chytrids found in soil, characterized by its unique motile spores.''"

definition orderRhizophydiales_description :: string where
  "orderRhizophydiales_description =
     ''Aquatic parasitic (on algae) or saprotrophic (in soil or on pollen, keratin, or chitin); sporangia spherical or angular; rhizoids branched; example genus is Rhizophydium.''"

definition orderSpizellomycetales_description :: string where
  "orderSpizellomycetales_description =
     ''Parasitic on soil organisms and plants; holocarpic or eucarpic; example genera include Spizellomyces and Powellomyces.''"

definition classMonoblepharidomycetes_description :: string where
  "classMonoblepharidomycetes_description =
     ''Asexual reproduction by zoospores or autospores; filamentous, branched or unbranched thallus; contains 1 order.''"

definition orderMonoblepharidales_description :: string where
  "orderMonoblepharidales_description =
     ''Sexual reproduction by motile gamete (antherozoid) fertilizing nonmotile egg, resulting in thick-walled oospore; example genus is Monoblepharis.''"

definition phylumNeocallimastigomycota_description :: string where
  "phylumNeocallimastigomycota_description =
     ''Found in digestive tracts of herbivores; anaerobic; zoospores with one or more posterior flagella; lacks mitochondria but contains hydrogenosomes (hydrogen-producing, membrane-bound organelles).''"

definition classNeocallimastigomycetes_description :: string where
  "classNeocallimastigomycetes_description =
     ''Contains 1 order.''"

definition orderNeocallimastigales_description :: string where
  "orderNeocallimastigales_description =
     ''Digest cellulose; example genus is Neocallimastix.''"

definition phylumBlastocladiomycota_description :: string where
  "phylumBlastocladiomycota_description =
     ''Parasitic on plants and animals, some are saprotrophic; aquatic and terrestrial; flagellated; alternates between haploid and diploid generations (zygotic meiosis).''"

definition classBlastocladiomycetes_description :: string where
  "classBlastocladiomycetes_description =
     ''Parasitic or saprotrophic; contains 1 order.''"

definition orderBlastocladiales_description :: string where
  "orderBlastocladiales_description =
     ''Parasitic on many different substrates, including decaying fruits; example genera include Allomyces and Coelomomyces.''"

definition phylumMicrosporidia_description :: string where
  "phylumMicrosporidia_description =
     ''Parasitic on animals and protists; unicellular; highly reduced mitochondria; phylum not subdivided due to lack of well-defined phylogenetic relationships within the group.''"

definition phylumGlomeromycota_description :: string where
  "phylumGlomeromycota_description =
     ''Forms obligate, mutualistic, symbiotic relationships in which hyphae penetrate into the cells of roots of plants and trees (arbuscular mycorrhizal associations); coenocytic hyphae; reproduces asexually; cell walls composed primarily of chitin.''"

definition classArchaeosporomycetes_description :: string where
  "classArchaeosporomycetes_description =
     ''Arbuscular mycorrhizal; spores form singly or in loose clusters.''"

definition orderArchaeosporales_description :: string where
  "orderArchaeosporales_description =
     ''Arbuscular mycorrhizal; example genera include Archaeospora and Geosiphon.''"

definition classGlomeromycetes_description :: string where
  "classGlomeromycetes_description =
     ''Arbuscular mycorrhizal; single or clustered spores; contains 4 orders.''"

definition orderDiversisporales_description :: string where
  "orderDiversisporales_description =
     ''Arbuscular mycorrhizal; forms complexes of spores; example genera include Acaulospora, Diversispora, and Pacispora.''"

definition orderGigasporales_description :: string where
  "orderGigasporales_description =
     ''Arbuscular mycorrhizal; uses extra-radical auxiliary cells instead of vesicles in plant roots.''"

definition orderGlomerales_description :: string where
  "orderGlomerales_description =
     ''Arbuscular mycorrhizal; forms single spores, loose clusters of spores, or compact sporocarps (fruiting bodies); example genus is Glomus.''"

definition classParaglomeromycetes_description :: string where
  "classParaglomeromycetes_description =
     ''Arbuscular mycorrhizal; forms complexes of spores.''"

definition orderParaglomerales_description :: string where
  "orderParaglomerales_description =
     ''Arbuscular mycorrhizal; example genus is Paraglomus.''"

definition subphylumMucoromycotina_description :: string where
  "subphylumMucoromycotina_description =
     ''Parasitic, saprotrophic, or ectomycorrhizal; asexual or sexual reproduction; branched mycelium; contains 3 orders that represent the traditional Zygomycota.''"

definition orderMucorales_description :: string where
  "orderMucorales_description =
     ''Parasitic or saprotrophic; filamentous; nonmotile spores (aplanospores); coenocytic mycelium; asexual reproduction by formation of sporangiospores; example genera include Mucor, Parasitella, Phycomyces, Pilobolus, and Rhizopus.''"

definition orderEndogonales_description :: string where
  "orderEndogonales_description =
     ''Saprotrophic or mycorrhizal; filamentous; coenocytic mycelium; underground sporocarp; example genera include Endogone, Peridiospora, Sclerogone, and Youngiomyces.''"

definition orderMortierellales_description :: string where
  "orderMortierellales_description =
     ''Parasitic or saprotrophic; fine mycelium, branched (arachnoid); sporangia with 1 or many spores; may form chlamydospores; produces garliclike odor; example genera include Mortierella, Dissophora, and Modicella.''"

definition subphylumEntomophthoromycotina_description :: string where
  "subphylumEntomophthoromycotina_description =
     ''Pathogenic, saprotrophic, or parasitic; coenocytic or septate mycelium; rhizoids formed by some species; conidiophore branched or unbranched; conidia forcibly discharged; contains 1 order.''"

definition orderEntomophthorales_description :: string where
  "orderEntomophthorales_description =
     ''Primarily parasitic on insects, some may be saprotrophic in soil; coenocytic mycelium, may become septate; example genera include Entomophthora, Ballocephala, Conidiobolus, Entomophaga, and Neozygites.''"

definition subphylumZoopagomycotina_description :: string where
  "subphylumZoopagomycotina_description =
     ''Endoparasitic (lives in the body) or ectoparasitic (lives on the body) on nematodes, protozoa, and fungi; thallus branched or unbranched; asexual and sexual reproduction; contains 1 order.''"

definition orderZoopagales_description :: string where
  "orderZoopagales_description =
     ''Parasitic on amoebas, rotifers, nematodes, and other protozoa; asexual reproduction by conidia borne singly or in chains, not forcibly discharged; example genera include Cochlonema, Rhopalomyces, Piptocephalis, Sigmoideomyces, Syncephalis, and Zoopage.''"

definition module_body :: "(heap, ref) state" where
  "module_body = do {
     kingdomFungi \<leftarrow> createTaxonFrame
       \<lparr>optName = ''Fungi'', optRank = ''Kingdom'',
        optDescription = Some kingdomFungi_description,
        optAttributes = Some []\<rparr>
       None;
     setDomain kingdomFungi ''Eukaryota'';
     phylumChytridiomycota \<leftarrow> createTaxonFrame
       \<lparr>optName = ''Chytridiomycota'', optRank = ''Phylum'',
        optDescription = Some phylumChytridiomycota_description,
        optAttributes = Some []\<rparr>
       (Some kingdomFungi);
     classChytridiomycetes \<leftarrow> createTaxonFrame
       \<lparr>optName = ''Chytridiomycetes'', optRank = ''Class'',
        optDescription = Some classChytridiomycetes_description,
        optAttributes = Some []\<rparr>
       (Some phylumChytridiomycota);
     orderChytridiales \<leftarrow> createTaxonFrame
       \<lparr>optName = ''Chytridiales'', optRank = ''Order'',
        optDescription = Some orderChytridiales_description,
        optAttributes = Some []\<rparr>
       (Some classChytridiomycetes);
     genusChytridium \<leftarrow> createTaxonFrame
       \<lparr>optName = ''Chytridium'', optRank = ''Genus'',
        optDescription = Some genusChytridium_description,
        optAttributes = Some [(''habitat'', ''Soil''), (''reproduction'', ''Asexual reproduction via motile zoospores''), (''cellStructure'', ''Unicellular or simple filamentous structures'')]\<rparr>
       (Some orderChytridiales);
     orderRhizophydiales \<leftarrow> createTaxonFrame
       \<lparr>optName = ''Rhizophydiales'', optRank = ''Order'',
        optDescription = Some orderRhizophydiales_description,
        optAttributes = Some []\<rparr>
       (Some classChytridiomycetes);
     orderSpizellomycetales \<leftarrow> createTaxonFrame
       \<lparr>optName = ''Spizellomycetales'', optRank = ''Order'',
        optDescription = Some orderSpizellomycetales_description,
        optAttributes = Some []\<rparr>
       (Some classChytridiomycetes);
     classMonoblepharidomycetes \<leftarrow> createTaxonFrame
       \<lparr>optName = ''Monoblepharidomycetes'', optRank = ''Class'',
        optDescription = Some classMonoblepharidomycetes_description,
        optAttributes = Some []\<rparr>
       (Some phylumChytridiomycota);
     orderMonoblepharidales \<leftarrow> createTaxonFrame
       \<lparr>optName = ''Monoblepharidales'', optRank = ''Order'',
        optDescription = Some orderMonoblepharidales_description,
        optAttributes = Some []\<rparr>
       (Some classMonoblepharidomycetes);
     phylumNeocallimastigomycota \<leftarrow> createTaxonFrame
       \<lparr>optName = ''Neocallimastigomycota'', optRank = ''Phylum'',
        optDescription = Some phylumNeocallimastigomycota_description,
        optAttributes = Some []\<rparr>
       (Some kingdomFungi);
     classNeocallimastigomycetes \<leftarrow> createTaxonFrame
       \<lparr>optName = ''Neocallimastigomycetes'', optRank = ''Class'',
        optDescription = Some classNeocallimastigomycetes_description,
        optAttributes = Some []\<rparr>
       (Some phylumNeocallimastigomycota);
     orderNeocallimastigales \<leftarrow> createTaxonFrame
       \<lparr>optName = ''Neocallimastigales'', optRank = ''Order'',
        optDescription = Some orderNeocallimastigales_description,
        optAttributes = Some []\<rparr>
       (Some classNeocallimastigomycetes);
     phylumBlastocladiomycota \<leftarrow> createTaxonFrame
       \<lparr>optName = ''Blastocladiomycota'', optRank = ''Phylum'',
        optDescription = Some phylumBlastocladiomycota_description,
        optAttributes = Some []\<rparr>
       (Some kingdomFungi);
     classBlastocladiomycetes \<leftarrow> createTaxonFrame
       \<lparr>optName = ''Blastocladiomycetes'', optRank = ''Class'',
        optDescription = Some classBlastocladiomycetes_description,
        optAttributes = Some []\<rparr>
       (Some phylumBlastocladiomycota);
     orderBlastocladiales \<leftarrow> createTaxonFrame
       \<lparr>optName = ''Blastocladiales'', optRank = ''Order'',
        optDescription = Some orderBlastocladiales_description,
        optAttributes = Some []\<rparr>
       (Some classBlastocladiomycetes);
     phylumMicrosporidia \<leftarrow> createTaxonFrame
       \<lparr>optName = ''Microsporidia'', optRank = ''Phylum'',
        optDescription = Some phylumMicrosporidia_description,
        optAttributes = Some []\<rparr>
       (Some kingdomFungi);
     phylumGlomeromycota \<leftarrow> createTaxonFrame
       \<lparr>optName = ''Glomeromycota'', optRank = ''Phylum'',
        optDescription = Some phylumGlomeromycota_description,
        optAttributes = Some []\<rparr>
       (Some kingdomFungi);
     classArchaeosporomycetes \<leftarrow> createTaxonFrame
       \<lparr>optName = ''Archaeosporomycetes'', optRank = ''Class'',
        optDescription = Some classArchaeosporomycetes_description,
        optAttributes = Some []\<rparr>
       (Some phylumGlomeromycota);
     orderArchaeosporales \<leftarrow> createTaxonFrame
       \<lparr>optName = ''Archaeosporales'', optRank = ''Order'',
        optDescription = Some orderArchaeosporales_description,
        optAttributes = Some []\<rparr>
       (Some classArchaeosporomycetes);
     classGlomeromycetes \<leftarrow> createTaxonFrame
       \<lparr>optName = ''Glomeromycetes'', optRank = ''Class'',
        optDescription = Some classGlomeromycetes_description,
        optAttributes = Some []\<rparr>
       (Some phylumGlomeromycota);
     orderDiversisporales \<leftarrow> createTaxonFrame
       \<lparr>optName = ''Diversisporales'', optRank = ''Order'',
        optDescription = Some orderDiversisporales_description,
        optAttributes = Some []\<rparr>
       (Some classGlomeromycetes);
     orderGigasporales \<leftarrow> createTaxonFrame
       \<lparr>optName = ''Gigasporales'', optRank = ''Order'',
        optDescription = Some orderGigasporales_description,
        optAttributes = Some []\<rparr>
       (Some classGlomeromycetes);
     orderGlomerales \<leftarrow> createTaxonFrame
       \<lparr>optName = ''Glomerales'', optRank = ''Order'',
        optDescription = Some orderGlomerales_description,
        optAttributes = Some []\<rparr>
       (Some classGlomeromycetes);
     classParaglomeromycetes \<leftarrow> createTaxonFrame
       \<lparr>optName = ''Paraglomeromycetes'', optRank = ''Class'',
        optDescription = Some classParaglomeromycetes_description,
        optAttributes = Some []\<rparr>
       (Some phylumGlomeromycota);
     orderParaglomerales \<leftarrow> createTaxonFrame
       \<lparr>optName = ''Paraglomerales'', optRank = ''Order'',
        optDescription = Some orderParaglomerales_description,
        optAttributes = Some []\<rparr>
       (Some classParaglomeromycetes);
     subphylumMucoromycotina \<leftarrow> createTaxonFrame
       \<lparr>optName = ''Mucoromycotina (incertae sedis)'', optRank = ''Subphylum'',
        optDescription = Some subphylumMucoromycotina_description,
        optAttributes = Some []\<rparr>
       (Some kingdomFungi);
     orderMucorales \<leftarrow> createTaxonFrame
       \<lparr>optName = ''Mucorales'', optRank = ''Order'',
        optDescription = Some orderMucorales_description,
        optAttributes = Some []\<rparr>
       (Some subphylumMucoromycotina);
     orderEndogonales \<leftarrow> createTaxonFrame
       \<lparr>optName = ''Endogonales'', optRank = ''Order'',
        optDescription = Some orderEndogonales_description,
        optAttributes = Some []\<rparr>
       (Some subphylumMucoromycotina);
     orderMortierellales \<leftarrow> createTaxonFrame
       \<lparr>optName = ''Mortierellales'', optRank = ''Order'',
        optDescription = Some orderMortierellales_description,
        optAttributes = Some []\<rparr>
       (Some subphylumMucoromycotina);
     subphylumEntomophthoromycotina \<leftarrow> createTaxonFrame
       \<lparr>optName = ''Entomophthoromycotina (incertae sedis)'', optRank = ''Subphylum'',
        optDescription = Some subphylumEntomophthoromycotina_description,
        optAttributes = Some []\<rparr>
       (Some kingdomFungi);
     orderEntomophthorales \<leftarrow> createTaxonFrame
       \<lparr>optName = ''Entomophthorales'', optRank = ''Order'',
        optDescription = Some orderEntomophthorales_description,
        optAttributes = Some []\<rparr>
       (Some subphylumEntomophthoromycotina);
     subphylumZoopagomycotina \<leftarrow> createTaxonFrame
       \<lparr>optName = ''Zoopagomycotina (incertae sedis)'', optRank = ''Subphylum'',
        optDescription = Some subphylumZoopagomycotina_description,
        optAttributes = Some []\<rparr>
       (Some kingdomFungi);
     orderZoopagales \<leftarrow> createTaxonFrame
       \<lparr>optName = ''Zoopagales'', optRank = ''Order'',
        optDescription = Some orderZoopagales_description,
        optAttributes = Some []\<rparr>
       (Some subphylumZoopagomycotina);
     attachChild kingdomFungi ''Chytridiomycota'' phylumChytridiomycota;
     attachChild kingdomFungi ''Neocallimastigomycota'' phylumNeocallimastigomycota;
     attachChild kingdomFungi ''Blastocladiomycota'' phylumBlastocladiomycota;
     attachChild kingdomFungi ''Microsporidia'' phylumMicrosporidia;
     attachChild kingdomFungi ''Glomeromycota'' phylumGlomeromycota;
     attachChild kingdomFungi ''Mucoromycotina (incertae sedis)'' subphylumMucoromycotina;
     attachChild kingdomFungi ''Entomophthoromycotina (incertae sedis)'' subphylumEntomophthoromycotina;
     attachChild kingdomFungi ''Zoopagomycotina (incertae sedis)'' subphylumZoopagomycotina;
     attachChild phylumChytridiomycota ''Chytridiomycetes'' classChytridiomycetes;
     attachChild phylumChytridiomycota ''Monoblepharidomycetes'' classMonoblepharidomycetes;
     attachChild classChytridiomycetes ''Chytridiales'' orderChytridiales;
     attachChild classChytridiomycetes ''Rhizophydiales'' orderRhizophydiales;
     attachChild classChytridiomycetes ''Spizellomycetales'' orderSpizellomycetales;
     attachChild orderChytridiales ''Chytridium'' genusChytridium;
     attachChild classMonoblepharidomycetes ''Monoblepharidales'' orderMonoblepharidales;
     attachChild phylumNeocallimastigomycota ''Neocallimastigomycetes'' classNeocallimastigomycetes;
     attachChild classNeocallimastigomycetes ''Neocallimastigales'' orderNeocallimastigales;
     attachChild phylumBlastocladiomycota ''Blastocladiomycetes'' classBlastocladiomycetes;
     attachChild classBlastocladiomycetes ''Blastocladiales'' orderBlastocladiales;
     attachChild phylumGlomeromycota ''Archaeosporomycetes'' classArchaeosporomycetes;
     attachChild phylumGlomeromycota ''Glomeromycetes'' classGlomeromycetes;
     attachChild phylumGlomeromycota ''Paraglomeromycetes'' classParaglomeromycetes;
     attachChild classArchaeosporomycetes ''Archaeosporales'' orderArchaeosporales;
     attachChild classGlomeromycetes ''Diversisporales'' orderDiversisporales;
     attachChild classGlomeromycetes ''Gigasporales'' orderGigasporales;
     attachChild classGlomeromycetes ''Glomerales'' orderGlomerales;
     attachChild classParaglomeromycetes ''Paraglomerales'' orderParaglomerales;
     attachChild subphylumMucoromycotina ''Mucorales'' orderMucorales;
     attachChild subphylumMucoromycotina ''Endogonales'' orderEndogonales;
     attachChild subphylumMucoromycotina ''Mortierellales'' orderMortierellales;
     attachChild subphylumEntomophthoromycotina ''Entomophthorales'' orderEntomophthorales;
     attachChild subphylumZoopagomycotina ''Zoopagales'' orderZoopagales;
     State_Monad.return kingdomFungi
   }"

definition fungiTaxonomy :: ref where
  "fungiTaxonomy = fst (run_state module_body [])"

definition fungiHeap :: heap where
  "fungiHeap = snd (run_state module_body [])"

subsection \<open>The tree inside the heap\<close>

text \<open>
  The references stored in a frame's \<open>children\<close> object, the parent-to-child links of every
  allocated object, and the references found \<open>d\<close> lookups below a given one.
\<close>

definition child_refs :: "heap \<Rightarrow> ref \<Rightarrow> ref list" where
  "child_refs h p = map snd (children (h ! p))"

definition edge_list :: "heap \<Rightarrow> (ref \<times> ref) list" where
  "edge_list h = concat (map (\<lambda>p. map (Pair p) (child_refs h p)) [0..<length h])"

fun level_refs :: "heap \<Rightarrow> ref \<Rightarrow> nat \<Rightarrow> ref list" where
  "level_refs h root 0 = [root]"
| "level_refs h root (Suc d) = concat (map (child_refs h) (level_refs h root d))"

text \<open>
  Two one-object heaps, whose only frame has the empty string, respectively
  \<open>"Eukaryota"\<close>, as its \<open>domain\<close>, and the options of a child constructed under it.
\<close>

definition blank_domain_heap :: heap where
  "blank_domain_heap =
     [\<lparr>name = ''Fungi'', rank = ''Kingdom'', description = None, attributes = [],
       children = [], childrenPrototype = None, domain = Some [], inheritedDomain = None\<rparr>]"

definition kingdom_heap :: heap where
  "kingdom_heap =
     [\<lparr>name = ''Fungi'', rank = ''Kingdom'', description = None, attributes = [],
       children = [], childrenPrototype = None, domain = Some ''Eukaryota'', inheritedDomain = None\<rparr>]"

definition phylum_options :: options where
  "phylum_options =
     \<lparr>optName = ''Chytridiomycota'', optRank = ''Phylum'', optDescription = None,
      optAttributes = None\<rparr>"

section \<open>Tree renderer: the TaxonomyLevel component\<close>

text \<open>
  The component's prop type \<open>Taxon\<close>: \<open>description\<close>, \<open>attributes\<close> and \<open>children\<close> are
  optional properties. \<open>children\<close> is given as \<open>Object.entries\<close> enumerates it.
\<close>

datatype taxon =
  Taxon (taxon_name: string) (taxon_rank: string) (taxon_description: "string option")
    (taxon_attributes: "(string \<times> string) list option")
    (taxon_children: "(string \<times> taxon) list option")

text \<open>The two \<open>useState\<close> cells of one component instance, and their initial values.\<close>

record hooks =
  expanded :: bool
  showDescription :: bool

definition initial_hooks :: hooks where
  "initial_hooks = \<lparr>expanded = False, showDescription = False\<rparr>"

text \<open>
  What one call of the component returns, without the styling: the optional expand button
  with its icon, the name and rank texts, the optional description button with its label,
  the optional description box, and the child component elements with their \<open>key\<close>,
  \<open>data\<close> and \<open>level\<close> props. The random background colour is cosmetic and left out.
\<close>

datatype icon = ChevronRight | ChevronDown

record element =
  expandButton :: "icon option"
  title :: string
  rankLabel :: string
  descriptionButton :: "string option"
  descriptionBox :: "string option"
  childLevels :: "(string \<times> taxon \<times> nat) list"

text \<open>
  The prop \<open>level\<close> is a JavaScript number, a double. The page passes 0 and every instance
  passes \<open>level + 1\<close> on, so the values are non-negative integers that a double represents.
  On these the addition is exact below \<open>2^53\<close>. From \<open>2^53\<close> to \<open>2^54\<close> the doubles are the
  even integers and \<open>level + 1\<close> lies half way between two of them: it is rounded to the one
  with the even significand, \<open>level\<close> itself or \<open>level + 2\<close>. From \<open>2^54\<close> on the sum is
  rounded back to \<open>level\<close>.
\<close>

definition number_plus_one :: "nat \<Rightarrow> nat" where
  "number_plus_one level =
     (if level < 9007199254740992 then level + 1
      else if level < 18014398509481984 \<and> (level div 2) mod 2 = 1 then level + 2
      else level)"

definition TaxonomyLevel :: "taxon \<Rightarrow> nat \<Rightarrow> hooks \<Rightarrow> element" where
  "TaxonomyLevel data level st =
     \<lparr>expandButton =
        (case taxon_children data of
           None \<Rightarrow> None
         | Some cs \<Rightarrow>
             if 0 < length (map fst cs)
             then Some (if expanded st then ChevronDown else ChevronRight)
             else None),
      title = map (\<lambda>c. if c = CHR ''_'' then CHR '' '' else c) (taxon_name data),
      rankLabel = ''('' @ taxon_rank data @ '')'',
      descriptionButton =
        (if truthy (taxon_description data)
         then Some ((if showDescription st then ''Hide'' else ''Show'') @ '' Description'')
         else None),
      descriptionBox =
        (if showDescription st \<and> truthy (taxon_description data)
         then taxon_description data
         else None),
      childLevels =
        (if expanded st
         then (case taxon_children data of
                 None \<Rightarrow> []
               | Some cs \<Rightarrow>
                   map (\<lambda>(childKey, childTaxon). (childKey, childTaxon, number_plus_one level))
                     cs)
         else [])\<rparr>"

text \<open>
  The two click handlers, \<open>setExpanded(!expanded)\<close> and
  \<open>setShowDescription(!showDescription)\<close>.
\<close>

definition toggleExpanded :: "hooks \<Rightarrow> hooks" where
  "toggleExpanded st = st\<lparr>expanded := \<not> expanded st\<rparr>"

definition toggleDescription :: "hooks \<Rightarrow> hooks" where
  "toggleDescription st = st\<lparr>showDescription := \<not> showDescription st\<rparr>"

text \<open>
  A user event on one instance: a click on one of the two buttons. A button that is not in
  the rendered output cannot be clicked, which is the result \<open>None\<close>.
\<close>

datatype control = ExpandControl | DescriptionControl

fun rendered :: "element \<Rightarrow> control \<Rightarrow> bool" where
  "rendered el ExpandControl = (expandButton el \<noteq> None)"
| "rendered el DescriptionControl = (descriptionButton el \<noteq> None)"

fun handler :: "control \<Rightarrow> hooks \<Rightarrow> hooks" where
  "handler ExpandControl = toggleExpanded"
| "handler DescriptionControl = toggleDescription"

definition click :: "taxon \<Rightarrow> nat \<Rightarrow> control \<Rightarrow> hooks \<Rightarrow> hooks option" where
  "click data level c st =
     (if rendered (TaxonomyLevel data level st) c then Some (handler c st) else None)"

fun clicks :: "taxon \<Rightarrow> nat \<Rightarrow> control list \<Rightarrow> hooks \<Rightarrow> hooks option" where
  "clicks data level [] st = Some st"
| "clicks data level (c # cs) st =
     (case click data level c st of None \<Rightarrow> None | Some st' \<Rightarrow> clicks data level cs st')"

text \<open>
  The rows of the mounted tree in document order. Every child element becomes an
  instance of the same component with hooks of its own; an instance is identified by the
  keys on the way to it, and \<open>\<sigma>\<close> gives each instance its current hooks. A row records the
  instance's path and \<open>level\<close> prop and the two texts of its header.
\<close>

type_synonym row = "string list \<times> nat \<times> string \<times> string"

function render_rows :: "(string list \<Rightarrow> hooks) \<Rightarrow> string list \<Rightarrow> taxon \<Rightarrow> nat \<Rightarrow> row list" where
  "render_rows \<sigma> path data level =
     (path, level, title (TaxonomyLevel data level (\<sigma> path)),
        rankLabel (TaxonomyLevel data level (\<sigma> path)))
     # concat (map (\<lambda>(childKey, childTaxon, childLevel).
                      render_rows \<sigma> (path @ [childKey]) childTaxon childLevel)
                 (childLevels (TaxonomyLevel data level (\<sigma> path))))"
  by pat_completeness auto

text \<open>A three-level chain root, phylum, class, as in the data file, and a genus leaf.\<close>

definition chain_class :: taxon where
  "chain_class = Taxon ''Chytridiomycetes'' ''Class'' None None (Some [])"

definition chain_phylum :: taxon where
  "chain_phylum =
     Taxon ''Chytridiomycota'' ''Phylum'' None None (Some [(''Chytridiomycetes'', chain_class)])"

definition chain_root :: taxon where
  "chain_root =
     Taxon ''Fungi'' ''Kingdom'' (Some ''X'') (Some [])
       (Some [(''Chytridiomycota'', chain_phylum)])"

definition genus_leaf :: taxon where
  "genus_leaf =
     Taxon ''Chytridium'' ''Genus'' None (Some [(''habitat'', ''Soil'')]) None"

text \<open>
  A leaf that has a description, and a class with two orders of which the first has a child.
\<close>

definition described_leaf :: taxon where
  "described_leaf =
     Taxon ''Rhizophydiales'' ''Order'' (Some ''Aquatic parasitic'') (Some []) (Some [])"

definition class_two_orders :: taxon where
  "class_two_orders =
     Taxon ''Chytridiomycetes'' ''Class'' None (Some [])
       (Some [(''Chytridiales'',
                Taxon ''Chytridiales'' ''Order'' None (Some [])
                  (Some [(''Chytridium'', genus_leaf)])),
              (''Rhizophydiales'', described_leaf)])"

text \<open>The hooks assignment in which every instance is expanded.\<close>

definition all_expanded :: "string list \<Rightarrow> hooks" where
  "all_expanded path = \<lparr>expanded = True, showDescription = False\<rparr>"


section \<open>Termination of the row traversal\<close>

lemma child_smaller:
  "(k, c) \<in> set cs \<Longrightarrow> size c < size (Taxon n r d a (Some cs))"
  by (induction cs) auto

lemma childLevels_eq:
  "childLevels (TaxonomyLevel t l st) =
     (if expanded st
      then (case taxon_children t of
              None \<Rightarrow> []
            | Some cs \<Rightarrow>
                map (\<lambda>(childKey, childTaxon). (childKey, childTaxon, number_plus_one l)) cs)
      else [])"
  unfolding TaxonomyLevel_def by simp

lemma childLevels_member:
  assumes "(k, c, l) \<in> set (childLevels (TaxonomyLevel t level st))"
  shows "\<exists>xs. taxon_children t = Some xs \<and> (k, c) \<in> set xs \<and> l = number_plus_one level"
  using assms unfolding childLevels_eq
  by (cases "expanded st"; cases "taxon_children t") auto

lemma childLevels_smaller:
  assumes "(k, c, l) \<in> set (childLevels (TaxonomyLevel t level st))"
  shows "size c < size t"
proof -
  from childLevels_member[OF assms] obtain xs
    where xs: "taxon_children t = Some xs" "(k, c) \<in> set xs" by blast
  then show ?thesis
    using child_smaller[of k c xs "taxon_name t" "taxon_rank t" "taxon_description t"
        "taxon_attributes t"]
    by (cases t) simp
qed

termination render_rows
proof (relation "measure (\<lambda>(\<sigma>, path, data, level). size data)")
  show "wf (measure (\<lambda>(\<sigma>, path, data, level). size data))"
    by simp
next
  fix \<sigma> :: "string list \<Rightarrow> hooks" and path t level x xa y xb ya
  assume "x \<in> set (childLevels (TaxonomyLevel t level (\<sigma> path)))"
    and "(xa, y) = x" and "(xb, ya) = y"
  then have "(xa, xb, ya) \<in> set (childLevels (TaxonomyLevel t level (\<sigma> path)))"
    by simp
  then have "size xb < size t"
    by (rule childLevels_smaller)
  then show "((\<sigma>, path @ [xa], xb, ya), \<sigma>, path, t, level)
      \<in> measure (\<lambda>(\<sigma>, path, data, level). size data)"
    by simp
qed

text \<open>The defining equation recurses under a binder; it is unfolded by hand.\<close>

declare render_rows.simps [simp del]


section \<open>Running the statements\<close>

lemma run_createTaxonFrame:
  "run_state (createTaxonFrame opts parentFrame) h =
     (length h,
      h @ [\<lparr>name = optName opts, rank = optRank opts, description = optDescription opts,
             attributes = (case optAttributes opts of None \<Rightarrow> [] | Some a \<Rightarrow> a),
             children = [], childrenPrototype = None, domain = None,
             inheritedDomain =
               (case parentFrame of
                  None \<Rightarrow> None
                | Some p \<Rightarrow> if truthy (domain (h ! p)) then domain (h ! p) else None)\<rparr>])"
  by (simp add: createTaxonFrame_def Let_def split: option.split)

lemma run_setDomain:
  "run_state (setDomain p v) h = ((), h[p := (h ! p)\<lparr>domain := Some v\<rparr>])"
  by (simp add: setDomain_def)

lemma run_attachChild:
  "run_state (attachChild p key child) h =
     ((), h[p := (h ! p)
              \<lparr>children := set_property key child (children (h ! p)),
               childrenPrototype :=
                 (if key = ''__proto__'' then Some child else childrenPrototype (h ! p))\<rparr>])"
  by (simp add: attachChild_def)

text \<open>
  The module body is run one statement at a time on the heap built so far, so that every
  statement is evaluated on a concrete heap.
\<close>

lemma run_state_bind_let:
  "run_state (State_Monad.bind x f) s =
     (let r = run_state x s in run_state (f (fst r)) (snd r))"
  by (simp add: case_prod_beta Let_def)

lemmas heap_eval =
  createTaxonFrame_def setDomain_def attachChild_def set_property_def is_array_index_def
  is_digit_def run_state_bind_let State_Monad.run_state_return state.sel
  Let_def prod.case option.case list.case nat.case if_True if_False simp_thms
  frame.simps options.simps append.simps nth_Cons_0 nth_Cons_Suc list_update.simps
  list.size add_Suc_right add_0_right list.set image_insert image_empty insert_iff empty_iff
  fst_conv snd_conv list.inject char.inject list.distinct truthy.simps option.distinct
  list.pred_inject

lemmas heap_eval_cong =
  let_weak_cong if_weak_cong option.case_cong_weak list.case_cong_weak nat.case_cong_weak

lemma module_body_result:
  "run_state module_body [] =
     (0,
      [\<lparr>name = ''Fungi'', rank = ''Kingdom'',
        description = Some kingdomFungi_description,
        attributes = [],
        children = [(''Chytridiomycota'', 1), (''Neocallimastigomycota'', 9), (''Blastocladiomycota'', 12), (''Microsporidia'', 15), (''Glomeromycota'', 16), (''Mucoromycotina (incertae sedis)'', 25), (''Entomophthoromycotina (incertae sedis)'', 29), (''Zoopagomycotina (incertae sedis)'', 31)],
        childrenPrototype = None, domain = Some ''Eukaryota'', inheritedDomain = None\<rparr>,
      \<lparr>name = ''Chytridiomycota'', rank = ''Phylum'',
        description = Some phylumChytridiomycota_description,
        attributes = [],
        children = [(''Chytridiomycetes'', 2), (''Monoblepharidomycetes'', 7)],
        childrenPrototype = None, domain = None, inheritedDomain = Some ''Eukaryota''\<rparr>,
      \<lparr>name = ''Chytridiomycetes'', rank = ''Class'',
        description = Some classChytridiomycetes_description,
        attributes = [],
        children = [(''Chytridiales'', 3), (''Rhizophydiales'', 5), (''Spizellomycetales'', 6)],
        childrenPrototype = None, domain = None, inheritedDomain = None\<rparr>,
      \<lparr>name = ''Chytridiales'', rank = ''Order'',
        description = Some orderChytridiales_description,
        attributes = [],
        children = [(''Chytridium'', 4)],
        childrenPrototype = None, domain = None, inheritedDomain = None\<rparr>,
      \<lparr>name = ''Chytridium'', rank = ''Genus'',
        description = Some genusChytridium_description,
        attributes = [(''habitat'', ''Soil''), (''reproduction'', ''Asexual reproduction via motile zoospores''), (''cellStructure'', ''Unicellular or simple filamentous structures'')],
        children = [],
        childrenPrototype = None, domain = None, inheritedDomain = None\<rparr>,
      \<lparr>name = ''Rhizophydiales'', rank = ''Order'',
        description = Some orderRhizophydiales_description,
        attributes = [],
        children = [],
        childrenPrototype = None, domain = None, inheritedDomain = None\<rparr>,
      \<lparr>name = ''Spizellomycetales'', rank = ''Order'',
        description = Some orderSpizellomycetales_description,
        attributes = [],
        children = [],
        childrenPrototype = None, domain = None, inheritedDomain = None\<rparr>,
      \<lparr>name = ''Monoblepharidomycetes'', rank = ''Class'',
        description = Some classMonoblepharidomycetes_description,
        attributes = [],
        children = [(''Monoblepharidales'', 8)],
        childrenPrototype = None, domain = None, inheritedDomain = None\<rparr>,
      \<lparr>name = ''Monoblepharidales'', rank = ''Order'',
        description = Some orderMonoblepharidales_description,
        attributes = [],
        children = [],
        childrenPrototype = None, domain = None, inheritedDomain = None\<rparr>,
      \<lparr>name = ''Neocallimastigomycota'', rank = ''Phylum'',
        description = Some phylumNeocallimastigomycota_description,
        attributes = [],
        children = [(''Neocallimastigomycetes'', 10)],
        childrenPrototype = None, domain = None, inheritedDomain = Some ''Eukaryota''\<rparr>,
      \<lparr>name = ''Neocallimastigomycetes'', rank = ''Class'',
        description = Some classNeocallimastigomycetes_description,
        attributes = [],
        children = [(''Neocallimastigales'', 11)],
        childrenPrototype = None, domain = None, inheritedDomain = None\<rparr>,
      \<lparr>name = ''Neocallimastigales'', rank = ''Order'',
        description = Some orderNeocallimastigales_description,
        attributes = [],
        children = [],
        childrenPrototype = None, domain = None, inheritedDomain = None\<rparr>,
      \<lparr>name = ''Blastocladiomycota'', rank = ''Phylum'',
        description = Some phylumBlastocladiomycota_description,
        attributes = [],
        children = [(''Blastocladiomycetes'', 13)],
        childrenPrototype = None, domain = None, inheritedDomain = Some ''Eukaryota''\<rparr>,
      \<lparr>name = ''Blastocladiomycetes'', rank = ''Class'',
        description = Some classBlastocladiomycetes_description,
        attributes = [],
        children = [(''Blastocladiales'', 14)],
        childrenPrototype = None, domain = None, inheritedDomain = None\<rparr>,
      \<lparr>name = ''Blastocladiales'', rank = ''Order'',
        description = Some orderBlastocladiales_description,
        attributes = [],
        children = [],
        childrenPrototype = None, domain = None, inheritedDomain = None\<rparr>,
      \<lparr>name = ''Microsporidia'', rank = ''Phylum'',
        description = Some phylumMicrosporidia_description,
        attributes = [],
        children = [],
        childrenPrototype = None, domain = None, inheritedDomain = Some ''Eukaryota''\<rparr>,
      \<lparr>name = ''Glomeromycota'', rank = ''Phylum'',
        description = Some phylumGlomeromycota_description,
        attributes = [],
        children = [(''Archaeosporomycetes'', 17), (''Glomeromycetes'', 19), (''Paraglomeromycetes'', 23)],
        childrenPrototype = None, domain = None, inheritedDomain = Some ''Eukaryota''\<rparr>,
      \<lparr>name = ''Archaeosporomycetes'', rank = ''Class'',
        description = Some classArchaeosporomycetes_description,
        attributes = [],
        children = [(''Archaeosporales'', 18)],
        childrenPrototype = None, domain = None, inheritedDomain = None\<rparr>,
      \<lparr>name = ''Archaeosporales'', rank = ''Order'',
        description = Some orderArchaeosporales_description,
        attributes = [],
        children = [],
        childrenPrototype = None, domain = None, inheritedDomain = None\<rparr>,
      \<lparr>name = ''Glomeromycetes'', rank = ''Class'',
        description = Some classGlomeromycetes_description,
        attributes = [],
        children = [(''Diversisporales'', 20), (''Gigasporales'', 21), (''Glomerales'', 22)],
        childrenPrototype = None, domain = None, inheritedDomain = None\<rparr>,
      \<lparr>name = ''Diversisporales'', rank = ''Order'',
        description = Some orderDiversisporales_description,
        attributes = [],
        children = [],
        childrenPrototype = None, domain = None, inheritedDomain = None\<rparr>,
      \<lparr>name = ''Gigasporales'', rank = ''Order'',
        description = Some orderGigasporales_description,
        attributes = [],
        children = [],
        childrenPrototype = None, domain = None, inheritedDomain = None\<rparr>,
      \<lparr>name = ''Glomerales'', rank = ''Order'',
        description = Some orderGlomerales_description,
        attributes = [],
        children = [],
        childrenPrototype = None, domain = None, inheritedDomain = None\<rparr>,
      \<lparr>name = ''Paraglomeromycetes'', rank = ''Class'',
        description = Some classParaglomeromycetes_description,
        attributes = [],
        children = [(''Paraglomerales'', 24)],
        childrenPrototype = None, domain = None, inheritedDomain = None\<rparr>,
      \<lparr>name = ''Paraglomerales'', rank = ''Order'',
        description = Some orderParaglomerales_description,
        attributes = [],
        children = [],
        childrenPrototype = None, domain = None, inheritedDomain = None\<rparr>,
      \<lparr>name = ''Mucoromycotina (incertae sedis)'', rank = ''Subphylum'',
        description = Some subphylumMucoromycotina_description,
        attributes = [],
        children = [(''Mucorales'', 26), (''Endogonales'', 27), (''Mortierellales'', 28)],
        childrenPrototype = None, domain = None, inheritedDomain = Some ''Eukaryota''\<rparr>,
      \<lparr>name = ''Mucorales'', rank = ''Order'',
        description = Some orderMucorales_description,
        attributes = [],
        children = [],
        childrenPrototype = None, domain = None, inheritedDomain = None\<rparr>,
      \<lparr>name = ''Endogonales'', rank = ''Order'',
        description = Some orderEndogonales_description,
        attributes = [],
        children = [],
        childrenPrototype = None, domain = None, inheritedDomain = None\<rparr>,
      \<lparr>name = ''Mortierellales'', rank = ''Order'',
        description = Some orderMortierellales_description,
        attributes = [],
        children = [],
        childrenPrototype = None, domain = None, inheritedDomain = None\<rparr>,
      \<lparr>name = ''Entomophthoromycotina (incertae sedis)'', rank = ''Subphylum'',
        description = Some subphylumEntomophthoromycotina_description,
        attributes = [],
        children = [(''Entomophthorales'', 30)],
        childrenPrototype = None, domain = None, inheritedDomain = Some ''Eukaryota''\<rparr>,
      \<lparr>name = ''Entomophthorales'', rank = ''Order'',
        description = Some orderEntomophthorales_description,
        attributes = [],
        children = [],
        childrenPrototype = None, domain = None, inheritedDomain = None\<rparr>,
      \<lparr>name = ''Zoopagomycotina (incertae sedis)'', rank = ''Subphylum'',
        description = Some subphylumZoopagomycotina_description,
        attributes = [],
        children = [(''Zoopagales'', 32)],
        childrenPrototype = None, domain = None, inheritedDomain = Some ''Eukaryota''\<rparr>,
      \<lparr>name = ''Zoopagales'', rank = ''Order'',
        description = Some orderZoopagales_description,
        attributes = [],
        children = [],
        childrenPrototype = None, domain = None, inheritedDomain = None\<rparr>])"
  unfolding module_body_def
  apply (simp only: heap_eval cong: heap_eval_cong)
  apply simp
  done

lemma fungiTaxonomy_eq: "fungiTaxonomy = 0"
  unfolding fungiTaxonomy_def module_body_result by simp

lemma fungiHeap_eq:
  "fungiHeap =
     [\<lparr>name = ''Fungi'', rank = ''Kingdom'',
        description = Some kingdomFungi_description,
        attributes = [],
        children = [(''Chytridiomycota'', 1), (''Neocallimastigomycota'', 9), (''Blastocladiomycota'', 12), (''Microsporidia'', 15), (''Glomeromycota'', 16), (''Mucoromycotina (incertae sedis)'', 25), (''Entomophthoromycotina (incertae sedis)'', 29), (''Zoopagomycotina (incertae sedis)'', 31)],
        childrenPrototype = None, domain = Some ''Eukaryota'', inheritedDomain = None\<rparr>,
      \<lparr>name = ''Chytridiomycota'', rank = ''Phylum'',
        description = Some phylumChytridiomycota_description,
        attributes = [],
        children = [(''Chytridiomycetes'', 2), (''Monoblepharidomycetes'', 7)],
        childrenPrototype = None, domain = None, inheritedDomain = Some ''Eukaryota''\<rparr>,
      \<lparr>name = ''Chytridiomycetes'', rank = ''Class'',
        description = Some classChytridiomycetes_description,
        attributes = [],
        children = [(''Chytridiales'', 3), (''Rhizophydiales'', 5), (''Spizellomycetales'', 6)],
        childrenPrototype = None, domain = None, inheritedDomain = None\<rparr>,
      \<lparr>name = ''Chytridiales'', rank = ''Order'',
        description = Some orderChytridiales_description,
        attributes = [],
        children = [(''Chytridium'', 4)],
        childrenPrototype = None, domain = None, inheritedDomain = None\<rparr>,
      \<lparr>name = ''Chytridium'', rank = ''Genus'',
        description = Some genusChytridium_description,
        attributes = [(''habitat'', ''Soil''), (''reproduction'', ''Asexual reproduction via motile zoospores''), (''cellStructure'', ''Unicellular or simple filamentous structures'')],
        children = [],
        childrenPrototype = None, domain = None, inheritedDomain = None\<rparr>,
      \<lparr>name = ''Rhizophydiales'', rank = ''Order'',
        description = Some orderRhizophydiales_description,
        attributes = [],
        children = [],
        childrenPrototype = None, domain = None, inheritedDomain = None\<rparr>,
      \<lparr>name = ''Spizellomycetales'', rank = ''Order'',
        description = Some orderSpizellomycetales_description,
        attributes = [],
        children = [],
        childrenPrototype = None, domain = None, inheritedDomain = None\<rparr>,
      \<lparr>name = ''Monoblepharidomycetes'', rank = ''Class'',
        description = Some classMonoblepharidomycetes_description,
        attributes = [],
        children = [(''Monoblepharidales'', 8)],
        childrenPrototype = None, domain = None, inheritedDomain = None\<rparr>,
      \<lparr>name = ''Monoblepharidales'', rank = ''Order'',
        description = Some orderMonoblepharidales_description,
        attributes = [],
        children = [],
        childrenPrototype = None, domain = None, inheritedDomain = None\<rparr>,
      \<lparr>name = ''Neocallimastigomycota'', rank = ''Phylum'',
        description = Some phylumNeocallimastigomycota_description,
        attributes = [],
        children = [(''Neocallimastigomycetes'', 10)],
        childrenPrototype = None, domain = None, inheritedDomain = Some ''Eukaryota''\<rparr>,
      \<lparr>name = ''Neocallimastigomycetes'', rank = ''Class'',
        description = Some classNeocallimastigomycetes_description,
        attributes = [],
        children = [(''Neocallimastigales'', 11)],
        childrenPrototype = None, domain = None, inheritedDomain = None\<rparr>,
      \<lparr>name = ''Neocallimastigales'', rank = ''Order'',
        description = Some orderNeocallimastigales_description,
        attributes = [],
        children = [],
        childrenPrototype = None, domain = None, inheritedDomain = None\<rparr>,
      \<lparr>name = ''Blastocladiomycota'', rank = ''Phylum'',
        description = Some phylumBlastocladiomycota_description,
        attributes = [],
        children = [(''Blastocladiomycetes'', 13)],
        childrenPrototype = None, domain = None, inheritedDomain = Some ''Eukaryota''\<rparr>,
      \<lparr>name = ''Blastocladiomycetes'', rank = ''Class'',
        description = Some classBlastocladiomycetes_description,
        attributes = [],
        children = [(''Blastocladiales'', 14)],
        childrenPrototype = None, domain = None, inheritedDomain = None\<rparr>,
      \<lparr>name = ''Blastocladiales'', rank = ''Order'',
        description = Some orderBlastocladiales_description,
        attributes = [],
        children = [],
        childrenPrototype = None, domain = None, inheritedDomain = None\<rparr>,
      \<lparr>name = ''Microsporidia'', rank = ''Phylum'',
        description = Some phylumMicrosporidia_description,
        attributes = [],
        children = [],
        childrenPrototype = None, domain = None, inheritedDomain = Some ''Eukaryota''\<rparr>,
      \<lparr>name = ''Glomeromycota'', rank = ''Phylum'',
        description = Some phylumGlomeromycota_description,
        attributes = [],
        children = [(''Archaeosporomycetes'', 17), (''Glomeromycetes'', 19), (''Paraglomeromycetes'', 23)],
        childrenPrototype = None, domain = None, inheritedDomain = Some ''Eukaryota''\<rparr>,
      \<lparr>name = ''Archaeosporomycetes'', rank = ''Class'',
        description = Some classArchaeosporomycetes_description,
        attributes = [],
        children = [(''Archaeosporales'', 18)],
        childrenPrototype = None, domain = None, inheritedDomain = None\<rparr>,
      \<lparr>name = ''Archaeosporales'', rank = ''Order'',
        description = Some orderArchaeosporales_description,
        attributes = [],
        children = [],
        childrenPrototype = None, domain = None, inheritedDomain = None\<rparr>,
      \<lparr>name = ''Glomeromycetes'', rank = ''Class'',
        description = Some classGlomeromycetes_description,
        attributes = [],
        children = [(''Diversisporales'', 20), (''Gigasporales'', 21), (''Glomerales'', 22)],
        childrenPrototype = None, domain = None, inheritedDomain = None\<rparr>,
      \<lparr>name = ''Diversisporales'', rank = ''Order'',
        description = Some orderDiversisporales_description,
        attributes = [],
        children = [],
        childrenPrototype = None, domain = None, inheritedDomain = None\<rparr>,
      \<lparr>name = ''Gigasporales'', rank = ''Order'',
        description = Some orderGigasporales_description,
        attributes = [],
        children = [],
        childrenPrototype = None, domain = None, inheritedDomain = None\<rparr>,
      \<lparr>name = ''Glomerales'', rank = ''Order'',
        description = Some orderGlomerales_description,
        attributes = [],
        children = [],
        childrenPrototype = None, domain = None, inheritedDomain = None\<rparr>,
      \<lparr>name = ''Paraglomeromycetes'', rank = ''Class'',
        description = Some classParaglomeromycetes_description,
        attributes = [],
        children = [(''Paraglomerales'', 24)],
        childrenPrototype = None, domain = None, inheritedDomain = None\<rparr>,
      \<lparr>name = ''Paraglomerales'', rank = ''Order'',
        description = Some orderParaglomerales_description,
        attributes = [],
        children = [],
        childrenPrototype = None, domain = None, inheritedDomain = None\<rparr>,
      \<lparr>name = ''Mucoromycotina (incertae sedis)'', rank = ''Subphylum'',
        description = Some subphylumMucoromycotina_description,
        attributes = [],
        children = [(''Mucorales'', 26), (''Endogonales'', 27), (''Mortierellales'', 28)],
        childrenPrototype = None, domain = None, inheritedDomain = Some ''Eukaryota''\<rparr>,
      \<lparr>name = ''Mucorales'', rank = ''Order'',
        description = Some orderMucorales_description,
        attributes = [],
        children = [],
        childrenPrototype = None, domain = None, inheritedDomain = None\<rparr>,
      \<lparr>name = ''Endogonales'', rank = ''Order'',
        description = Some orderEndogonales_description,
        attributes = [],
        children = [],
        childrenPrototype = None, domain = None, inheritedDomain = None\<rparr>,
      \<lparr>name = ''Mortierellales'', rank = ''Order'',
        description = Some orderMortierellales_description,
        attributes = [],
        children = [],
        childrenPrototype = None, domain = None, inheritedDomain = None\<rparr>,
      \<lparr>name = ''Entomophthoromycotina (incertae sedis)'', rank = ''Subphylum'',
        description = Some subphylumEntomophthoromycotina_description,
        attributes = [],
        children = [(''Entomophthorales'', 30)],
        childrenPrototype = None, domain = None, inheritedDomain = Some ''Eukaryota''\<rparr>,
      \<lparr>name = ''Entomophthorales'', rank = ''Order'',
        description = Some orderEntomophthorales_description,
        attributes = [],
        children = [],
        childrenPrototype = None, domain = None, inheritedDomain = None\<rparr>,
      \<lparr>name = ''Zoopagomycotina (incertae sedis)'', rank = ''Subphylum'',
        description = Some subphylumZoopagomycotina_description,
        attributes = [],
        children = [(''Zoopagales'', 32)],
        childrenPrototype = None, domain = None, inheritedDomain = Some ''Eukaryota''\<rparr>,
      \<lparr>name = ''Zoopagales'', rank = ''Order'',
        description = Some orderZoopagales_description,
        attributes = [],
        children = [],
        childrenPrototype = None, domain = None, inheritedDomain = None\<rparr>]"
  unfolding fungiHeap_def module_body_result by simp


section \<open>Construction of a frame\<close>

text \<open>
  Claim C5. \<open>createTaxonFrame\<close> returns a reference to a new object whose \<open>name\<close>, \<open>rank\<close>
  and \<open>description\<close> are the given ones, whose \<open>attributes\<close> are the given ones or, when
  the caller left them out, the empty mapping, and whose \<open>children\<close> mapping is empty. The
  reference is fresh, and every object that existed before the call, the parent among
  them, is the same after it.
\<close>

theorem createTaxonFrame_fresh_node:
  fixes opts parentFrame h
  defines "r \<equiv> fst (run_state (createTaxonFrame opts parentFrame) h)"
    and "h' \<equiv> snd (run_state (createTaxonFrame opts parentFrame) h)"
  shows "name (h' ! r) = optName opts \<and> rank (h' ! r) = optRank opts \<and>
    description (h' ! r) = optDescription opts \<and>
    attributes (h' ! r) = (case optAttributes opts of None \<Rightarrow> [] | Some a \<Rightarrow> a) \<and>
    children (h' ! r) = [] \<and>
    r = length h \<and> length h' = Suc (length h) \<and> take (length h) h' = h"
  unfolding r_def h'_def run_createTaxonFrame by simp

text \<open>
  Claim C1, as the code has it. The new frame gets \<open>inheritedDomain\<close> exactly when a parent
  is supplied whose \<open>domain\<close> is truthy, that is present and not the empty string, and then
  it is the parent's \<open>domain\<close> at the time of the call; otherwise the property is absent.
  The value is a copy: assigning the \<open>domain\<close> of any object that existed before the call,
  the parent among them, leaves the new frame's \<open>inheritedDomain\<close> as it was.
\<close>

theorem createTaxonFrame_inheritedDomain:
  fixes opts parentFrame h
  defines "r \<equiv> fst (run_state (createTaxonFrame opts parentFrame) h)"
    and "h' \<equiv> snd (run_state (createTaxonFrame opts parentFrame) h)"
  shows "inheritedDomain (h' ! r) =
      (case parentFrame of
         None \<Rightarrow> None
       | Some p \<Rightarrow> if truthy (domain (h ! p)) then domain (h ! p) else None) \<and>
    (\<forall>p v. p < length h \<longrightarrow>
       inheritedDomain (snd (run_state (setDomain p v) h') ! r) = inheritedDomain (h' ! r))"
  unfolding r_def h'_def run_createTaxonFrame run_setDomain
  by (simp add: nth_append)

text \<open>
  The same at a concrete call: a phylum constructed under a kingdom whose \<open>domain\<close> is
  \<open>"Eukaryota"\<close> keeps that value after the kingdom's \<open>domain\<close> is reassigned.
\<close>

theorem createTaxonFrame_inheritedDomain_witness:
  "inheritedDomain
     (snd (run_state (createTaxonFrame phylum_options (Some 0)) kingdom_heap)
        ! fst (run_state (createTaxonFrame phylum_options (Some 0)) kingdom_heap))
     = Some ''Eukaryota'' \<and>
   inheritedDomain
     (snd (run_state (setDomain 0 ''Archaea'')
             (snd (run_state (createTaxonFrame phylum_options (Some 0)) kingdom_heap)))
        ! fst (run_state (createTaxonFrame phylum_options (Some 0)) kingdom_heap))
     = Some ''Eukaryota''"
  using createTaxonFrame_inheritedDomain
    [where opts = phylum_options and parentFrame = "Some 0" and h = kingdom_heap]
  by (simp add: kingdom_heap_def)

text \<open>
  Claim C1 as stated fails where the parent carries a \<open>domain\<close> property that is falsy: the
  parent's \<open>domain\<close> is the empty string, and the child has no \<open>inheritedDomain\<close>.
\<close>

theorem blank_domain_not_inherited:
  "domain (blank_domain_heap ! 0) = Some [] \<and>
   inheritedDomain
     (snd (run_state (createTaxonFrame phylum_options (Some 0)) blank_domain_heap)
        ! fst (run_state (createTaxonFrame phylum_options (Some 0)) blank_domain_heap)) = None"
  by (simp add: run_createTaxonFrame blank_domain_heap_def)


section \<open>Attaching a child\<close>

lemma map_of_overwrite_same:
  "k \<in> fst ` set es \<Longrightarrow> map_of (overwrite k v es) k = Some v"
  by (induction es) auto

lemma map_of_overwrite_other:
  "k' \<noteq> k \<Longrightarrow> map_of (overwrite k v es) k' = map_of es k'"
  by (induction es) auto

lemma keys_overwrite: "map fst (overwrite k v es) = map fst es"
  by (induction es) auto

lemma map_of_insert_index:
  "k \<notin> fst ` set es \<Longrightarrow>
     map_of (insert_index k v es) k' = (if k' = k then Some v else map_of es k')"
  by (induction es) auto

lemma keys_insert_index:
  "set (map fst (insert_index k v es)) = insert k (set (map fst es))"
  by (induction es) auto

lemma distinct_insert_index:
  "k \<notin> set (map fst es) \<Longrightarrow> distinct (map fst es) \<Longrightarrow>
     distinct (map fst (insert_index k v es))"
proof (induction es)
  case Nil
  then show ?case by simp
next
  case (Cons e es)
  then have "fst e \<notin> set (map fst (insert_index k v es))"
    unfolding keys_insert_index by auto
  with Cons show ?case by auto
qed

lemma map_of_append_new:
  "k \<notin> fst ` set es \<Longrightarrow>
     map_of (es @ [(k, v)]) k' = (if k' = k then Some v else map_of es k')"
proof -
  assume "k \<notin> fst ` set es"
  then have "map_of es k = None"
    by (simp add: map_of_eq_None_iff)
  then show ?thesis
    by (simp add: map_add_def split: option.split)
qed

lemma set_property_proto: "set_property ''__proto__'' v es = es"
  by (simp add: set_property_def)

lemma set_property_other:
  assumes "k \<noteq> ''__proto__''"
  shows "set_property k v es =
    (if k \<in> fst ` set es then overwrite k v es
     else if is_array_index k then insert_index k v es
     else es @ [(k, v)])"
  using assms unfolding set_property_def by (simp only: if_False)

lemma get_set_property:
  assumes "k \<noteq> ''__proto__''"
  shows "get_property (set_property k v es) k' =
    (if k' = k then Some v else get_property es k')"
proof (cases "k \<in> fst ` set es")
  case True
  then show ?thesis
    unfolding get_property_def set_property_other[OF assms]
    by (simp add: map_of_overwrite_same map_of_overwrite_other)
next
  case False
  then show ?thesis
    unfolding get_property_def set_property_other[OF assms]
    by (simp add: map_of_insert_index map_of_append_new del: map_of_append)
qed

lemma keys_set_property:
  assumes "k \<noteq> ''__proto__''"
  shows "set (map fst (set_property k v es)) = insert k (set (map fst es))"
proof (cases "k \<in> fst ` set es")
  case True
  then have "set (map fst (set_property k v es)) = set (map fst es)"
    unfolding set_property_other[OF assms] by (simp only: if_True keys_overwrite)
  with True show ?thesis by auto
next
  case False
  then show ?thesis
    unfolding set_property_other[OF assms] using keys_insert_index[of k v es] by auto
qed

lemma distinct_set_property:
  assumes "distinct (map fst es)"
  shows "distinct (map fst (set_property k v es))"
proof (cases "k = ''__proto__''")
  case True
  with assms show ?thesis by (simp add: set_property_proto)
next
  case other: False
  show ?thesis
  proof (cases "k \<in> fst ` set es")
    case True
    then show ?thesis
      unfolding set_property_other[OF other] using assms by (simp only: if_True keys_overwrite)
  next
    case False
    then have "k \<notin> set (map fst es)" by simp
    from distinct_insert_index[OF this assms] False assms show ?thesis
      unfolding set_property_other[OF other] by auto
  qed
qed

lemma distinct_key_filter:
  "distinct (map fst es) \<Longrightarrow> map_of es k = Some v \<Longrightarrow> filter (\<lambda>e. fst e = k) es = [(k, v)]"
proof (induction es)
  case Nil
  then show ?case by simp
next
  case (Cons e es)
  show ?case
  proof (cases "fst e = k")
    case True
    with Cons.prems have "e = (k, v)" by (cases e) simp
    moreover from True Cons.prems have "k \<notin> fst ` set es"
      by simp
    then have "filter (\<lambda>e. fst e = k) es = []"
      by (auto simp: filter_empty_conv)
    ultimately show ?thesis by simp
  next
    case False
    with Cons show ?thesis by (cases e) auto
  qed
qed

lemma overwrite_twice:
  "overwrite k v2 (overwrite k v1 es) = overwrite k v2 es"
  by (induction es) auto

lemma overwrite_insert_index:
  "k \<notin> fst ` set es \<Longrightarrow> overwrite k v2 (insert_index k v1 es) = insert_index k v2 es"
  by (induction es) auto

lemma overwrite_append_new:
  "k \<notin> fst ` set es \<Longrightarrow> overwrite k v2 (es @ [(k, v1)]) = es @ [(k, v2)]"
  by (induction es) auto

lemma set_property_twice:
  "set_property k v2 (set_property k v1 es) = set_property k v2 es"
proof (cases "k = ''__proto__''")
  case True
  then show ?thesis by (simp add: set_property_proto)
next
  case other: False
  have "k \<in> fst ` set (set_property k v1 es)"
    using keys_set_property[OF other, of v1 es] by auto
  then have "set_property k v2 (set_property k v1 es) = overwrite k v2 (set_property k v1 es)"
    by (simp add: set_property_other[OF other])
  also have "\<dots> = set_property k v2 es"
    by (simp add: set_property_other[OF other] overwrite_twice overwrite_insert_index
        overwrite_append_new)
  finally show ?thesis .
qed

text \<open>
  Claim C10, as the code has it. Attaching is a total operation: there is no error result.
  For a live parent whose \<open>children\<close> object has each key once:
  under a key other than \<open>__proto__\<close>, attaching makes the key look up the attached child
  whether or not the key was present; after a second attach under the same key the mapping
  has exactly one entry for it, the second child; the key set has grown by that key at most;
  and nothing but the parent's \<open>children\<close> has changed anywhere in the heap.
  Under the key \<open>__proto__\<close> the mapping keeps its entries as they were and the second child
  becomes the prototype of the children object.
  Under every key, two attaches leave the heap that the second alone would have left, and
  every other key looks up what it did before.
\<close>

theorem attachChild_last_write_wins:
  fixes p k c1 c2 h
  defines "h1 \<equiv> snd (run_state (attachChild p k c1) h)"
  defines "h2 \<equiv> snd (run_state (attachChild p k c2) h1)"
  assumes live: "p < length h" and keys: "distinct (map fst (children (h ! p)))"
  shows "(k \<noteq> ''__proto__'' \<longrightarrow>
      get_property (children (h1 ! p)) k = Some c1 \<and>
      get_property (children (h2 ! p)) k = Some c2 \<and>
      filter (\<lambda>e. fst e = k) (children (h2 ! p)) = [(k, c2)] \<and>
      set (map fst (children (h2 ! p))) = insert k (set (map fst (children (h ! p)))) \<and>
      h2 = h[p := (h ! p)\<lparr>children := children (h2 ! p)\<rparr>]) \<and>
    (k = ''__proto__'' \<longrightarrow>
      children (h2 ! p) = children (h ! p) \<and>
      h2 = h[p := (h ! p)\<lparr>childrenPrototype := Some c2\<rparr>]) \<and>
    h2 = snd (run_state (attachChild p k c2) h) \<and>
    (\<forall>k'. k' \<noteq> k \<longrightarrow>
      get_property (children (h2 ! p)) k' = get_property (children (h ! p)) k')"
proof -
  have c1: "children (h1 ! p) = set_property k c1 (children (h ! p))"
    unfolding h1_def run_attachChild using live by simp
  have len1: "p < length h1"
    unfolding h1_def run_attachChild using live by simp
  have c2: "children (h2 ! p) = set_property k c2 (children (h ! p))"
    unfolding h2_def run_attachChild using len1 by (simp add: c1 set_property_twice)
  have once: "h2 = snd (run_state (attachChild p k c2) h)"
    unfolding h2_def h1_def run_attachChild using live by (simp add: set_property_twice)
  show ?thesis
  proof (intro conjI allI impI)
    assume other: "k \<noteq> ''__proto__''"
    show "get_property (children (h1 ! p)) k = Some c1"
      by (simp add: c1 get_set_property[OF other])
    show look: "get_property (children (h2 ! p)) k = Some c2"
      by (simp add: c2 get_set_property[OF other])
    have "distinct (map fst (children (h2 ! p)))"
      unfolding c2 using keys by (rule distinct_set_property)
    moreover from look have "map_of (children (h2 ! p)) k = Some c2"
      unfolding get_property_def .
    ultimately show "filter (\<lambda>e. fst e = k) (children (h2 ! p)) = [(k, c2)]"
      by (rule distinct_key_filter)
    show "set (map fst (children (h2 ! p))) = insert k (set (map fst (children (h ! p))))"
      unfolding c2 by (rule keys_set_property[OF other])
    show "h2 = h[p := (h ! p)\<lparr>children := children (h2 ! p)\<rparr>]"
      unfolding c2 unfolding once run_attachChild using other by simp
  next
    assume proto: "k = ''__proto__''"
    show "children (h2 ! p) = children (h ! p)"
      unfolding c2 proto by (rule set_property_proto)
    show "h2 = h[p := (h ! p)\<lparr>childrenPrototype := Some c2\<rparr>]"
      unfolding once run_attachChild proto by (simp add: set_property_proto)
  next
    show "h2 = snd (run_state (attachChild p k c2) h)"
      by (rule once)
  next
    fix k'
    assume differ: "k' \<noteq> k"
    show "get_property (children (h2 ! p)) k' = get_property (children (h ! p)) k'"
    proof (cases "k = ''__proto__''")
      case True
      then show ?thesis by (simp add: c2 set_property_proto)
    next
      case False
      from differ show ?thesis by (simp add: c2 get_set_property[OF False])
    qed
  qed
qed

text \<open>
  Two attaches under \<open>"Chytridiomycota"\<close>, and two under \<open>"__proto__"\<close>, on a kingdom without
  children.
\<close>

theorem attachChild_last_write_wins_witness:
  "0 < length kingdom_heap \<and> distinct (map fst (children (kingdom_heap ! 0))) \<and>
   get_property
     (children
        (snd (run_state (attachChild 0 ''Chytridiomycota'' 2)
                (snd (run_state (attachChild 0 ''Chytridiomycota'' 1) kingdom_heap))) ! 0))
     ''Chytridiomycota'' = Some 2 \<and>
   children
     (snd (run_state (attachChild 0 ''Chytridiomycota'' 2)
             (snd (run_state (attachChild 0 ''Chytridiomycota'' 1) kingdom_heap))) ! 0)
     = [(''Chytridiomycota'', 2)] \<and>
   childrenPrototype
     (snd (run_state (attachChild 0 ''__proto__'' 2)
             (snd (run_state (attachChild 0 ''__proto__'' 1) kingdom_heap))) ! 0)
     = Some 2"
  using attachChild_last_write_wins
    [where p = 0 and h = kingdom_heap and k = "''Chytridiomycota''" and ?c1.0 = 1 and ?c2.0 = 2]
    attachChild_last_write_wins
    [where p = 0 and h = kingdom_heap and k = "''__proto__''" and ?c1.0 = 1 and ?c2.0 = 2]
  by (simp add: kingdom_heap_def run_attachChild set_property_def is_array_index_def
      is_digit_def get_property_def)

text \<open>
  Claim C10 as stated fails at the key \<open>__proto__\<close>: after two attaches under it the mapping
  holds no entry for the key, with the first child and with the second.
\<close>

theorem proto_key_attaches_no_entry:
  "get_property
     (children
        (snd (run_state (attachChild 0 ''__proto__'' 2)
                (snd (run_state (attachChild 0 ''__proto__'' 1) kingdom_heap))) ! 0))
     ''__proto__'' = None \<and>
   children
     (snd (run_state (attachChild 0 ''__proto__'' 2)
             (snd (run_state (attachChild 0 ''__proto__'' 1) kingdom_heap))) ! 0)
     = []"
  by (simp add: kingdom_heap_def run_attachChild set_property_def get_property_def)


section \<open>The constructed tree\<close>

lemma fungi_length: "length fungiHeap = 33"
  unfolding fungiHeap_eq by simp

lemma fungi_names:
  "map name fungiHeap =
     [''Fungi'', ''Chytridiomycota'', ''Chytridiomycetes'', ''Chytridiales'',
      ''Chytridium'', ''Rhizophydiales'', ''Spizellomycetales'',
      ''Monoblepharidomycetes'', ''Monoblepharidales'', ''Neocallimastigomycota'',
      ''Neocallimastigomycetes'', ''Neocallimastigales'', ''Blastocladiomycota'',
      ''Blastocladiomycetes'', ''Blastocladiales'', ''Microsporidia'',
      ''Glomeromycota'', ''Archaeosporomycetes'', ''Archaeosporales'',
      ''Glomeromycetes'', ''Diversisporales'', ''Gigasporales'', ''Glomerales'',
      ''Paraglomeromycetes'', ''Paraglomerales'', ''Mucoromycotina (incertae sedis)'',
      ''Mucorales'', ''Endogonales'', ''Mortierellales'',
      ''Entomophthoromycotina (incertae sedis)'', ''Entomophthorales'',
      ''Zoopagomycotina (incertae sedis)'', ''Zoopagales'']"
  unfolding fungiHeap_eq by simp

lemma fungi_ranks:
  "map rank fungiHeap =
     [''Kingdom'', ''Phylum'', ''Class'', ''Order'', ''Genus'', ''Order'', ''Order'',
      ''Class'', ''Order'', ''Phylum'', ''Class'', ''Order'', ''Phylum'', ''Class'',
      ''Order'', ''Phylum'', ''Phylum'', ''Class'', ''Order'', ''Class'', ''Order'',
      ''Order'', ''Order'', ''Class'', ''Order'', ''Subphylum'', ''Order'', ''Order'',
      ''Order'', ''Subphylum'', ''Order'', ''Subphylum'', ''Order'']"
  unfolding fungiHeap_eq by simp

lemma fungi_inheritedDomains:
  "map inheritedDomain fungiHeap =
     [None, Some ''Eukaryota'', None, None, None, None, None, None, None,
      Some ''Eukaryota'', None, None, Some ''Eukaryota'', None, None,
      Some ''Eukaryota'', Some ''Eukaryota'', None, None, None, None, None, None, None,
      None, Some ''Eukaryota'', None, None, None, Some ''Eukaryota'', None,
      Some ''Eukaryota'', None]"
  unfolding fungiHeap_eq by simp

lemma fungi_children:
  "map children fungiHeap =
     [[(''Chytridiomycota'', 1), (''Neocallimastigomycota'', 9), (''Blastocladiomycota'', 12), (''Microsporidia'', 15), (''Glomeromycota'', 16), (''Mucoromycotina (incertae sedis)'', 25), (''Entomophthoromycotina (incertae sedis)'', 29), (''Zoopagomycotina (incertae sedis)'', 31)],
      [(''Chytridiomycetes'', 2), (''Monoblepharidomycetes'', 7)],
      [(''Chytridiales'', 3), (''Rhizophydiales'', 5), (''Spizellomycetales'', 6)],
      [(''Chytridium'', 4)], [], [], [], [(''Monoblepharidales'', 8)], [],
      [(''Neocallimastigomycetes'', 10)], [(''Neocallimastigales'', 11)], [],
      [(''Blastocladiomycetes'', 13)], [(''Blastocladiales'', 14)], [], [],
      [(''Archaeosporomycetes'', 17), (''Glomeromycetes'', 19), (''Paraglomeromycetes'', 23)],
      [(''Archaeosporales'', 18)], [],
      [(''Diversisporales'', 20), (''Gigasporales'', 21), (''Glomerales'', 22)], [],
      [], [], [(''Paraglomerales'', 24)], [],
      [(''Mucorales'', 26), (''Endogonales'', 27), (''Mortierellales'', 28)], [], [],
      [], [(''Entomophthorales'', 30)], [], [(''Zoopagales'', 32)], []]"
  unfolding fungiHeap_eq by simp

lemma edge_list_zip:
  "edge_list h =
     concat (map (\<lambda>(p, cs). map (Pair p) (map snd cs)) (zip [0..<length h] (map children h)))"
proof -
  have "zip [0..<length h] (map children h) = map (\<lambda>p. (p, children (h ! p))) [0..<length h]"
    by (rule nth_equalityI) simp_all
  then show ?thesis
    by (simp add: edge_list_def child_refs_def comp_def)
qed

lemma fungi_edges:
  "edge_list fungiHeap =
     [(0, 1), (0, 9), (0, 12), (0, 15), (0, 16), (0, 25), (0, 29), (0, 31), (1, 2),
      (1, 7), (2, 3), (2, 5), (2, 6), (3, 4), (7, 8), (9, 10), (10, 11), (12, 13),
      (13, 14), (16, 17), (16, 19), (16, 23), (17, 18), (19, 20), (19, 21), (19, 22),
      (23, 24), (25, 26), (25, 27), (25, 28), (29, 30), (31, 32)]"
  unfolding edge_list_zip fungi_children fungi_length by (simp add: upt_rec)

lemma upt_33:
  "[0..<33] = [0, 1, 2, 3, 4, 5, 6, 7, 8, 9, 10, 11, 12, 13, 14, 15, 16, 17, 18, 19, 20, 21,
    22, 23, 24, 25, 26, 27, 28, 29, 30, 31, 32]"
  by (simp add: upt_rec)

lemma below_33_all:
  assumes "list_all P [0..<33]" and "r < 33"
  shows "P r"
  using assms by (simp add: list_all_iff)

lemma fungi_nth:
  assumes "r < 33"
  shows "name (fungiHeap ! r) = map name fungiHeap ! r"
    and "rank (fungiHeap ! r) = map rank fungiHeap ! r"
    and "children (fungiHeap ! r) = map children fungiHeap ! r"
    and "inheritedDomain (fungiHeap ! r) = map inheritedDomain fungiHeap ! r"
  using assms by (simp_all add: fungi_length)

lemma level_refs_empty:
  "level_refs h root d = [] \<Longrightarrow> level_refs h root (d + k) = []"
  by (induction k) simp_all

lemma fungi_root_children:
  "child_refs fungiHeap fungiTaxonomy = [1, 9, 12, 15, 16, 25, 29, 31]"
  using fungi_nth(3)[of 0] by (simp add: child_refs_def fungiTaxonomy_eq fungi_children)

lemma child_refs_nth:
  "r < 33 \<Longrightarrow> child_refs fungiHeap r = map snd (map children fungiHeap ! r)"
  by (simp add: child_refs_def fungi_nth)

lemma fungi_levels:
  "level_refs fungiHeap fungiTaxonomy 0 = [0]"
  "level_refs fungiHeap fungiTaxonomy 1 = [1, 9, 12, 15, 16, 25, 29, 31]"
  "level_refs fungiHeap fungiTaxonomy 2 = [2, 7, 10, 13, 17, 19, 23, 26, 27, 28, 30, 32]"
  "level_refs fungiHeap fungiTaxonomy 3 = [3, 5, 6, 8, 11, 14, 18, 20, 21, 22, 24]"
  "level_refs fungiHeap fungiTaxonomy 4 = [4]"
  "level_refs fungiHeap fungiTaxonomy 5 = []"
  by (simp_all add: eval_nat_numeral fungiTaxonomy_eq child_refs_nth[simplified eval_nat_numeral] fungi_children)

lemma fungi_levels_deep:
  assumes "5 \<le> d"
  shows "level_refs fungiHeap fungiTaxonomy d = []"
  using level_refs_empty[OF fungi_levels(6), of "d - 5"] assms by simp

lemma inheritedDomain_by_child:
  assumes "r < 33"
  shows "inheritedDomain (fungiHeap ! r) =
    (if r \<in> set (child_refs fungiHeap fungiTaxonomy) then Some ''Eukaryota'' else None)"
proof -
  have "list_all (\<lambda>r. map inheritedDomain fungiHeap ! r =
      (if r \<in> set [1, 9, 12, 15, 16, 25, 29, 31] then Some ''Eukaryota'' else None)) [0..<33]"
    unfolding upt_33 fungi_inheritedDomains by simp
  from below_33_all[OF this assms] show ?thesis
    by (simp add: fungi_nth(4)[OF assms] fungi_root_children)
qed

text \<open>
  Claim C2. In the heap the module leaves behind, a frame found \<open>d\<close> child lookups below
  the root carries \<open>inheritedDomain\<close>, with the value \<open>"Eukaryota"\<close>, when \<open>d\<close> is 1, and
  carries no such property for every other \<open>d\<close>, the root itself and every depth from 2 on.
  Said by reference: of all constructed frames, exactly the direct children of the root
  carry the property.
\<close>

theorem inheritedDomain_only_below_root:
  "(\<forall>d r. r \<in> set (level_refs fungiHeap fungiTaxonomy d) \<longrightarrow>
       inheritedDomain (fungiHeap ! r) = (if d = 1 then Some ''Eukaryota'' else None)) \<and>
   (\<forall>r < length fungiHeap.
       inheritedDomain (fungiHeap ! r) =
         (if r \<in> set (child_refs fungiHeap fungiTaxonomy) then Some ''Eukaryota'' else None))"
proof (intro conjI allI impI)
  fix d r
  assume r: "r \<in> set (level_refs fungiHeap fungiTaxonomy d)"
  consider "d = 0" | "d = 1" | "d = 2" | "d = 3" | "d = 4" | "5 \<le> d"
    by linarith
  then have "r < 33 \<and> (r \<in> set (child_refs fungiHeap fungiTaxonomy)) = (d = 1)"
  proof cases
    case 1
    from r show ?thesis unfolding 1 fungi_levels(1) fungi_root_children by auto
  next
    case 2
    from r show ?thesis unfolding 2 fungi_levels(2) fungi_root_children by auto
  next
    case 3
    from r show ?thesis unfolding 3 fungi_levels(3) fungi_root_children by auto
  next
    case 4
    from r show ?thesis unfolding 4 fungi_levels(4) fungi_root_children by auto
  next
    case 5
    from r show ?thesis unfolding 5 fungi_levels(5) fungi_root_children by auto
  next
    case 6
    with r show ?thesis by (simp add: fungi_levels_deep)
  qed
  then show "inheritedDomain (fungiHeap ! r) = (if d = 1 then Some ''Eukaryota'' else None)"
    by (simp add: inheritedDomain_by_child)
next
  fix r
  assume "r < length fungiHeap"
  then show "inheritedDomain (fungiHeap ! r) =
      (if r \<in> set (child_refs fungiHeap fungiTaxonomy) then Some ''Eukaryota'' else None)"
    by (simp add: fungi_length inheritedDomain_by_child)
qed

text \<open>
  At a phylum (depth 1), a class (depth 2) and the genus (not a child of the root).
\<close>

theorem inheritedDomain_only_below_root_witness:
  "1 \<in> set (level_refs fungiHeap fungiTaxonomy 1) \<and>
   inheritedDomain (fungiHeap ! 1) = Some ''Eukaryota'' \<and>
   2 \<in> set (level_refs fungiHeap fungiTaxonomy 2) \<and>
   inheritedDomain (fungiHeap ! 2) = None \<and>
   4 < length fungiHeap \<and> 4 \<notin> set (child_refs fungiHeap fungiTaxonomy) \<and>
   inheritedDomain (fungiHeap ! 4) = None"
  using inheritedDomain_only_below_root
  by (simp add: fungi_levels fungi_length fungi_root_children)

text \<open>Links that lead from a lower to a higher reference cannot close a cycle.\<close>

lemma increasing_trancl:
  assumes "\<forall>e \<in> R. fst e < (snd e :: nat)" and "(a, b) \<in> R\<^sup>+"
  shows "a < b"
  using assms(2)
proof (induction rule: trancl.induct)
  case (r_into_trancl a b)
  with assms(1) show ?case by force
next
  case (trancl_into_trancl a b c)
  with assms(1) have "b < c" by force
  with trancl_into_trancl show ?case by simp
qed

lemma reachable_by_parents:
  assumes "\<forall>c. 0 < c \<and> c < n \<longrightarrow> (\<exists>p < c. (p, c) \<in> R)" and "r < (n::nat)"
  shows "(0, r) \<in> R\<^sup>*"
  using assms(2)
proof (induction r rule: less_induct)
  case (less r)
  show ?case
  proof (cases "r = 0")
    case True
    then show ?thesis by simp
  next
    case False
    with less.prems assms(1) obtain p where "p < r" and "(p, r) \<in> R"
      by auto
    with less show ?thesis
      by (meson less_trans rtrancl.rtrancl_into_rtrancl)
  qed
qed

lemma fungi_edges_increasing:
  "\<forall>e \<in> set (edge_list fungiHeap). fst e < snd e"
  unfolding fungi_edges by simp

lemma fungi_edge_targets:
  "map snd (edge_list fungiHeap) =
     [1, 9, 12, 15, 16, 25, 29, 31, 2, 7, 3, 5, 6, 4, 8, 10, 11, 13, 14, 17, 19, 23, 18, 20, 21,
      22, 24, 26, 27, 28, 30, 32]"
  unfolding fungi_edges by simp

lemma fungi_parent:
  assumes "0 < c" and "c < 33"
  shows "\<exists>p < c. (p, c) \<in> set (edge_list fungiHeap)"
proof -
  have "list_all (\<lambda>c. 0 < c \<longrightarrow> (\<exists>p < c. (p, c) \<in> set (edge_list fungiHeap))) [0..<33]"
    unfolding upt_33 fungi_edges by simp
  from below_33_all[OF this assms(2)] assms(1) show ?thesis by simp
qed

lemma fungi_child_iff:
  assumes "r < 33"
  shows "(r \<in> snd ` set (edge_list fungiHeap)) = (r \<noteq> 0)"
proof -
  have "list_all (\<lambda>r. (r \<in> set (map snd (edge_list fungiHeap))) = (r \<noteq> 0)) [0..<33]"
    unfolding upt_33 fungi_edge_targets by simp
  from below_33_all[OF this assms] show ?thesis by simp
qed

text \<open>
  Claim C3. The export is the frame named \<open>"Fungi"\<close> of rank \<open>"Kingdom"\<close>; among the
  constructed frames it is the only one that is no frame's child; every constructed frame
  is reached from it by zero or more \<open>children\<close> lookups; and no frame is among its own
  descendants.
\<close>

theorem fungiTaxonomy_is_tree:
  "name (fungiHeap ! fungiTaxonomy) = ''Fungi'' \<and>
   rank (fungiHeap ! fungiTaxonomy) = ''Kingdom'' \<and>
   fungiTaxonomy < length fungiHeap \<and>
   (\<forall>r < length fungiHeap.
      (r \<in> snd ` set (edge_list fungiHeap)) = (r \<noteq> fungiTaxonomy)) \<and>
   (\<forall>r < length fungiHeap. (fungiTaxonomy, r) \<in> (set (edge_list fungiHeap))\<^sup>*) \<and>
   (\<forall>r. (r, r) \<notin> (set (edge_list fungiHeap))\<^sup>+)"
proof (intro conjI allI impI)
  show "name (fungiHeap ! fungiTaxonomy) = ''Fungi''"
    unfolding fungiTaxonomy_eq using fungi_nth(1)[of 0] by (simp add: fungi_names)
  show "rank (fungiHeap ! fungiTaxonomy) = ''Kingdom''"
    unfolding fungiTaxonomy_eq using fungi_nth(2)[of 0] by (simp add: fungi_ranks)
  show "fungiTaxonomy < length fungiHeap"
    by (simp add: fungiTaxonomy_eq fungi_length)
next
  fix r
  assume "r < length fungiHeap"
  then show "(r \<in> snd ` set (edge_list fungiHeap)) = (r \<noteq> fungiTaxonomy)"
    by (simp add: fungi_length fungiTaxonomy_eq fungi_child_iff)
next
  fix r
  assume "r < length fungiHeap"
  then have "r < 33" by (simp add: fungi_length)
  with reachable_by_parents[of 33 "set (edge_list fungiHeap)" r] fungi_parent
  show "(fungiTaxonomy, r) \<in> (set (edge_list fungiHeap))\<^sup>*"
    by (simp add: fungiTaxonomy_eq)
next
  fix r
  show "(r, r) \<notin> (set (edge_list fungiHeap))\<^sup>+"
    using increasing_trancl[OF fungi_edges_increasing, of r r] by auto
qed

text \<open>At the genus frame.\<close>

theorem fungiTaxonomy_is_tree_witness:
  "4 < length fungiHeap \<and> 4 \<in> snd ` set (edge_list fungiHeap) \<and>
   (fungiTaxonomy, 4) \<in> (set (edge_list fungiHeap))\<^sup>* \<and>
   (4, 4) \<notin> (set (edge_list fungiHeap))\<^sup>+"
  using fungiTaxonomy_is_tree
  by (simp add: fungi_length fungiTaxonomy_eq)

lemma fungi_reachable_below:
  assumes "(fungiTaxonomy, p) \<in> (set (edge_list fungiHeap))\<^sup>*"
  shows "p < 33"
  using assms
proof (induction rule: rtrancl_induct)
  case base
  show ?case by (simp add: fungiTaxonomy_eq)
next
  case (step y z)
  then have "z \<in> set (map snd (edge_list fungiHeap))" by force
  then show ?case unfolding fungi_edge_targets by auto
qed

lemma fungi_keys_are_names:
  assumes "p < 33" and "(k, c) \<in> set (children (fungiHeap ! p))"
  shows "name (fungiHeap ! c) = k"
proof -
  have "list_all (\<lambda>p. list_all (\<lambda>e. snd e < 33 \<and> map name fungiHeap ! snd e = fst e)
      (map children fungiHeap ! p)) [0..<33]"
    unfolding upt_33 fungi_children fungi_names by simp
  from below_33_all[OF this assms(1)] assms(2)
  have "c < 33 \<and> map name fungiHeap ! c = k"
    by (auto simp: list_all_iff fungi_nth(3)[OF assms(1)])
  then show ?thesis by (simp add: fungi_nth(1))
qed

text \<open>
  Claim C4. For every frame \<open>p\<close> reachable from the root and every key \<open>k\<close> of
  \<open>p.children\<close>, the frame stored under \<open>k\<close> has the name \<open>k\<close>.
\<close>

theorem fungiTaxonomy_keys_are_names:
  assumes "(fungiTaxonomy, p) \<in> (set (edge_list fungiHeap))\<^sup>*"
    and "get_property (children (fungiHeap ! p)) k = Some c"
  shows "name (fungiHeap ! c) = k"
proof -
  from assms(2) have "(k, c) \<in> set (children (fungiHeap ! p))"
    unfolding get_property_def by (rule map_of_SomeD)
  with fungi_reachable_below[OF assms(1)] show ?thesis
    by (rule fungi_keys_are_names)
qed

text \<open>At the phylum Glomeromycota and its class Glomeromycetes.\<close>

theorem fungiTaxonomy_keys_are_names_witness:
  "(fungiTaxonomy, 16) \<in> (set (edge_list fungiHeap))\<^sup>* \<and>
   get_property (children (fungiHeap ! 16)) ''Glomeromycetes'' = Some 19 \<and>
   name (fungiHeap ! 19) = ''Glomeromycetes''"
proof -
  have reach: "(fungiTaxonomy, 16) \<in> (set (edge_list fungiHeap))\<^sup>*"
    unfolding fungiTaxonomy_eq fungi_edges by (rule r_into_rtrancl) simp
  have look: "get_property (children (fungiHeap ! 16)) ''Glomeromycetes'' = Some 19"
    using fungi_nth(3)[of 16] by (simp add: get_property_def fungi_children)
  from reach look fungiTaxonomy_keys_are_names[OF reach look] show ?thesis
    by simp
qed


section \<open>The rendered component\<close>

lemma expandButton_eq:
  "expandButton (TaxonomyLevel t level st) =
     (case taxon_children t of
        None \<Rightarrow> None
      | Some cs \<Rightarrow> if cs = [] then None
                 else Some (if expanded st then ChevronDown else ChevronRight))"
  unfolding TaxonomyLevel_def by (simp split: option.split)

lemma descriptionButton_eq:
  "descriptionButton (TaxonomyLevel t level st) =
     (if truthy (taxon_description t)
      then Some (if showDescription st then ''Hide Description'' else ''Show Description'')
      else None)"
  unfolding TaxonomyLevel_def by simp

lemma descriptionBox_eq:
  "descriptionBox (TaxonomyLevel t level st) =
     (if truthy (taxon_description t) \<and> showDescription st then taxon_description t else None)"
  unfolding TaxonomyLevel_def by auto

lemma click_expanded:
  assumes "click t level c st = Some st'" and "expanded st' \<noteq> expanded st"
  shows "c = ExpandControl \<and> st' = toggleExpanded st \<and>
    expandButton (TaxonomyLevel t level st) \<noteq> None"
  using assms
  by (cases c) (auto simp: click_def toggleExpanded_def toggleDescription_def split: if_splits)

lemma leaf_clicks:
  assumes "expandButton (TaxonomyLevel t level st) = None"
    and "clicks t level cs st = Some st'"
  shows "expanded st' = expanded st"
  using assms
proof (induction cs arbitrary: st)
  case Nil
  then show ?case by simp
next
  case (Cons c cs)
  from Cons.prems(2) obtain st1 where c: "click t level c st = Some st1"
    and cs: "clicks t level cs st1 = Some st'"
    by (auto split: option.splits)
  from Cons.prems(1) have none: "expandButton (TaxonomyLevel t level st1) = None"
    unfolding expandButton_eq by (auto split: option.splits if_splits)
  from click_expanded[OF c] Cons.prems(1) have "expanded st1 = expanded st"
    by blast
  with Cons.IH[OF none cs] show ?case by simp
qed

text \<open>
  Claim C6. The expand button is in the output exactly when \<open>children\<close> is present and has
  an entry, whatever the hooks are. A click that changes \<open>expanded\<close> is a click on the expand
  button, which is then in the output, and it flips \<open>expanded\<close> and nothing else. On a node
  without the button no sequence of clicks changes \<open>expanded\<close>.
\<close>

theorem expand_control_iff_children:
  "(expandButton (TaxonomyLevel t level st) \<noteq> None) =
     (\<exists>cs. taxon_children t = Some cs \<and> cs \<noteq> []) \<and>
   (\<forall>c st'. click t level c st = Some st' \<longrightarrow> expanded st' \<noteq> expanded st \<longrightarrow>
      c = ExpandControl \<and> st' = toggleExpanded st \<and>
      expandButton (TaxonomyLevel t level st) \<noteq> None) \<and>
   (\<forall>cs st'. expandButton (TaxonomyLevel t level st) = None \<longrightarrow>
      clicks t level cs st = Some st' \<longrightarrow> expanded st' = expanded st)"
proof (intro conjI allI impI)
  show "(expandButton (TaxonomyLevel t level st) \<noteq> None) =
      (\<exists>cs. taxon_children t = Some cs \<and> cs \<noteq> [])"
    unfolding expandButton_eq by (auto split: option.splits)
next
  fix c st'
  assume c: "click t level c st = Some st'" and e: "expanded st' \<noteq> expanded st"
  from click_expanded[OF c e]
  show "c = ExpandControl" and "st' = toggleExpanded st"
    and "expandButton (TaxonomyLevel t level st) \<noteq> None"
    by simp_all
next
  fix cs st'
  assume "expandButton (TaxonomyLevel t level st) = None"
    and "clicks t level cs st = Some st'"
  then show "expanded st' = expanded st"
    by (rule leaf_clicks)
qed

text \<open>
  At the genus leaf, expanded or not, at the root of the chain, and at a leaf with a
  description, where three clicks on the description button leave \<open>expanded\<close> as it was.
\<close>

theorem expand_control_iff_children_witness:
  "expandButton (TaxonomyLevel genus_leaf 4 \<lparr>expanded = True, showDescription = False\<rparr>) = None \<and>
   clicks genus_leaf 4 [] \<lparr>expanded = True, showDescription = False\<rparr>
     = Some \<lparr>expanded = True, showDescription = False\<rparr> \<and>
   click genus_leaf 4 ExpandControl \<lparr>expanded = True, showDescription = False\<rparr> = None \<and>
   expandButton (TaxonomyLevel chain_root 0 initial_hooks) = Some ChevronRight \<and>
   click chain_root 0 ExpandControl initial_hooks
     = Some \<lparr>expanded = True, showDescription = False\<rparr> \<and>
   click chain_root 0 DescriptionControl initial_hooks
     = Some \<lparr>expanded = False, showDescription = True\<rparr> \<and>
   expandButton (TaxonomyLevel described_leaf 3 initial_hooks) = None \<and>
   clicks described_leaf 3 [DescriptionControl, DescriptionControl, DescriptionControl]
     initial_hooks = Some \<lparr>expanded = False, showDescription = True\<rparr> \<and>
   clicks described_leaf 3 [DescriptionControl, ExpandControl] initial_hooks = None"
proof -
  let ?open = "\<lparr>expanded = True, showDescription = False\<rparr>"
  from expand_control_iff_children[of described_leaf 3 initial_hooks]
  have "(expandButton (TaxonomyLevel described_leaf 3 initial_hooks) \<noteq> None) =
      (\<exists>cs. taxon_children described_leaf = Some cs \<and> cs \<noteq> [])"
    by (rule conjunct1)
  then have described: "expandButton (TaxonomyLevel described_leaf 3 initial_hooks) = None"
    by (simp add: described_leaf_def)
  have thrice: "clicks described_leaf 3 [DescriptionControl, DescriptionControl,
      DescriptionControl] initial_hooks = Some \<lparr>expanded = False, showDescription = True\<rparr>"
    by (simp add: click_def descriptionButton_eq described_leaf_def initial_hooks_def
        toggleDescription_def)
  have blocked: "clicks described_leaf 3 [DescriptionControl, ExpandControl] initial_hooks
      = None"
    by (simp add: click_def descriptionButton_eq expandButton_eq described_leaf_def
        initial_hooks_def toggleDescription_def)
  from expand_control_iff_children[of genus_leaf 4 ?open]
  have "(expandButton (TaxonomyLevel genus_leaf 4 ?open) \<noteq> None) =
      (\<exists>cs. taxon_children genus_leaf = Some cs \<and> cs \<noteq> [])"
    by (rule conjunct1)
  then have leaf: "expandButton (TaxonomyLevel genus_leaf 4 ?open) = None"
    by (simp add: genus_leaf_def)
  from expand_control_iff_children[of chain_root 0 initial_hooks]
  have "(expandButton (TaxonomyLevel chain_root 0 initial_hooks) \<noteq> None) =
      (\<exists>cs. taxon_children chain_root = Some cs \<and> cs \<noteq> [])"
    by (rule conjunct1)
  then have "expandButton (TaxonomyLevel chain_root 0 initial_hooks) \<noteq> None"
    by (simp add: chain_root_def)
  then have root: "expandButton (TaxonomyLevel chain_root 0 initial_hooks) = Some ChevronRight"
    by (simp add: expandButton_eq initial_hooks_def split: option.splits if_splits)
  have desc: "descriptionButton (TaxonomyLevel chain_root 0 initial_hooks) \<noteq> None"
    by (simp add: descriptionButton_eq chain_root_def)
  show ?thesis
    using leaf root desc described thrice blocked
    by (simp add: click_def initial_hooks_def toggleExpanded_def toggleDescription_def)
qed

text \<open>
  Claim C7. The description button is in the output exactly when \<open>description\<close> is truthy,
  that is present and not empty; its label is \<open>"Hide Description"\<close> while the description is
  shown and \<open>"Show Description"\<close> while it is hidden. The description box is in the output
  exactly when the description is truthy and shown, and holds the description unchanged.
\<close>

theorem description_control:
  "descriptionButton (TaxonomyLevel t level st) =
     (if truthy (taxon_description t)
      then Some (if showDescription st then ''Hide Description'' else ''Show Description'')
      else None) \<and>
   descriptionBox (TaxonomyLevel t level st) =
     (if truthy (taxon_description t) \<and> showDescription st then taxon_description t else None) \<and>
   truthy (taxon_description t) = (\<exists>s. taxon_description t = Some s \<and> s \<noteq> [])"
  unfolding descriptionButton_eq descriptionBox_eq
  by (cases "taxon_description t") simp_all

text \<open>At the root of the chain, hidden and shown, and at the leaf without description.\<close>

theorem description_control_witness:
  "descriptionButton (TaxonomyLevel chain_root 0 initial_hooks) = Some ''Show Description'' \<and>
   descriptionBox (TaxonomyLevel chain_root 0 initial_hooks) = None \<and>
   descriptionButton (TaxonomyLevel chain_root 0 (toggleDescription initial_hooks))
     = Some ''Hide Description'' \<and>
   descriptionBox (TaxonomyLevel chain_root 0 (toggleDescription initial_hooks)) = Some ''X'' \<and>
   descriptionButton (TaxonomyLevel genus_leaf 4 (toggleDescription initial_hooks)) = None \<and>
   descriptionBox (TaxonomyLevel genus_leaf 4 (toggleDescription initial_hooks)) = None"
  using description_control[of chain_root 0 initial_hooks]
    description_control[of chain_root 0 "toggleDescription initial_hooks"]
    description_control[of genus_leaf 4 "toggleDescription initial_hooks"]
  by (simp add: chain_root_def genus_leaf_def initial_hooks_def toggleDescription_def)

text \<open>
  Claim C8. Both hooks start at \<open>False\<close>. Each handler negates its own hook and leaves the
  other. Applying a handler twice gives back the hooks, hence the same output of the
  component; and a control that could be clicked once can be clicked again, after which the
  hooks are the original ones.
\<close>

theorem toggle_twice:
  fixes st :: hooks
  shows "expanded initial_hooks = False \<and> showDescription initial_hooks = False \<and>
   expanded (toggleExpanded st) = (\<not> expanded st) \<and>
   showDescription (toggleExpanded st) = showDescription st \<and>
   showDescription (toggleDescription st) = (\<not> showDescription st) \<and>
   expanded (toggleDescription st) = expanded st \<and>
   toggleExpanded (toggleExpanded st) = st \<and>
   toggleDescription (toggleDescription st) = st \<and>
   TaxonomyLevel t level (toggleExpanded (toggleExpanded st)) = TaxonomyLevel t level st \<and>
   TaxonomyLevel t level (toggleDescription (toggleDescription st)) = TaxonomyLevel t level st \<and>
   (\<forall>c st1 st2. click t level c st = Some st1 \<longrightarrow> click t level c st1 = Some st2 \<longrightarrow>
      st2 = st) \<and>
   (\<forall>c st1. click t level c st = Some st1 \<longrightarrow> click t level c st1 \<noteq> None)"
proof -
  have rendered_same:
    "rendered (TaxonomyLevel t level st1) c = rendered (TaxonomyLevel t level st) c"
    for c and st1 :: hooks
    by (cases c) (simp_all add: expandButton_eq descriptionButton_eq split: option.split)
  have twice: "handler c (handler c st) = st" for c
    by (cases c) (simp_all add: toggleExpanded_def toggleDescription_def)
  have "st2 = st" if "click t level c st = Some st1" "click t level c st1 = Some st2"
    for c st1 st2
    using that twice[of c] by (auto simp: click_def split: if_splits)
  moreover have "click t level c st1 \<noteq> None" if "click t level c st = Some st1" for c st1
    using that rendered_same[of st1 c] by (auto simp: click_def split: if_splits)
  ultimately show ?thesis
    by (simp add: initial_hooks_def toggleExpanded_def toggleDescription_def)
qed

text \<open>Both controls of the root of the chain, clicked twice.\<close>

theorem toggle_twice_witness:
  "click chain_root 0 ExpandControl initial_hooks
     = Some \<lparr>expanded = True, showDescription = False\<rparr> \<and>
   click chain_root 0 ExpandControl \<lparr>expanded = True, showDescription = False\<rparr>
     = Some initial_hooks \<and>
   click chain_root 0 DescriptionControl initial_hooks
     = Some \<lparr>expanded = False, showDescription = True\<rparr> \<and>
   click chain_root 0 DescriptionControl \<lparr>expanded = False, showDescription = True\<rparr>
     = Some initial_hooks"
  using toggle_twice[of initial_hooks chain_root 0]
  by (simp add: chain_root_def initial_hooks_def click_def expandButton_eq
      descriptionButton_eq toggleExpanded_def toggleDescription_def)

text \<open>Where a row occurs in a concatenation of blocks.\<close>

lemma concat_split_at:
  "concat bs = xs @ r # ys \<Longrightarrow>
     \<exists>bs1 b1 b2 bs2. bs = bs1 @ (b1 @ r # b2) # bs2 \<and> xs = concat bs1 @ b1 \<and> ys = b2 @ concat bs2"
proof (induction bs arbitrary: xs)
  case Nil
  then show ?case by simp
next
  case (Cons b bs)
  from Cons.prems have "b @ concat bs = xs @ r # ys" by simp
  then consider
    us where "b = xs @ us" "us @ concat bs = r # ys" |
    us where "b @ us = xs" "concat bs = us @ r # ys"
    by (auto simp: append_eq_append_conv2)
  then show ?case
  proof cases
    case 1
    show ?thesis
    proof (cases us)
      case Nil
      with 1 have "concat bs = [] @ r # ys" by simp
      from Cons.IH[OF this] obtain bs1 b1 b2 bs2
        where "bs = bs1 @ (b1 @ r # b2) # bs2" "[] = concat bs1 @ b1" "ys = b2 @ concat bs2"
        by blast
      with 1 Nil have "b # bs = (b # bs1) @ (b1 @ r # b2) # bs2 \<and>
          xs = concat (b # bs1) @ b1 \<and> ys = b2 @ concat bs2"
        by simp
      then show ?thesis by blast
    next
      case (Cons u us')
      with 1 have "b # bs = [] @ (xs @ r # us') # bs \<and> xs = concat [] @ xs \<and>
          ys = us' @ concat bs"
        by simp
      then show ?thesis by blast
    qed
  next
    case 2
    from Cons.IH[OF 2(2)] obtain bs1 b1 b2 bs2
      where "bs = bs1 @ (b1 @ r # b2) # bs2" "us = concat bs1 @ b1" "ys = b2 @ concat bs2"
      by blast
    with 2 have "b # bs = (b # bs1) @ (b1 @ r # b2) # bs2 \<and>
        xs = concat (b # bs1) @ b1 \<and> ys = b2 @ concat bs2"
      by auto
    then show ?thesis by blast
  qed
qed

lemma render_rows_hd:
  "\<exists>rest. render_rows \<sigma> path t level =
      (path, level, title (TaxonomyLevel t level (\<sigma> path)),
        rankLabel (TaxonomyLevel t level (\<sigma> path))) # rest"
  by (subst render_rows.simps) simp

lemma parent_row_first:
  "render_rows \<sigma> path t level = xs @ r # ys \<Longrightarrow> xs \<noteq> [] \<Longrightarrow>
     \<exists>r' \<in> set xs. fst r' = butlast (fst r) \<and> fst (snd r) = number_plus_one (fst (snd r'))"
proof (induction \<sigma> path t level arbitrary: xs r ys rule: render_rows.induct)
  case (1 \<sigma> path t level)
  let ?el = "TaxonomyLevel t level (\<sigma> path)"
  let ?own = "(path, level, title ?el, rankLabel ?el)"
  let ?f = "\<lambda>(childKey, childTaxon, childLevel).
      render_rows \<sigma> (path @ [childKey]) childTaxon childLevel"
  from "1.prems"(1) have "?own # concat (map ?f (childLevels ?el)) = xs @ r # ys"
    by (subst (asm) render_rows.simps) simp
  with "1.prems"(2) obtain xs' where xs: "xs = ?own # xs'"
    and rest: "concat (map ?f (childLevels ?el)) = xs' @ r # ys"
    by (cases xs) auto
  from concat_split_at[OF rest] obtain bs1 b1 b2 bs2
    where split: "map ?f (childLevels ?el) = bs1 @ (b1 @ r # b2) # bs2"
      and xs': "xs' = concat bs1 @ b1"
    by blast
  have "b1 @ r # b2 \<in> set (map ?f (childLevels ?el))"
    unfolding split by simp
  then obtain k c l where el: "(k, c, l) \<in> set (childLevels ?el)"
    and block: "render_rows \<sigma> (path @ [k]) c l = b1 @ r # b2"
    by auto
  from childLevels_member[OF el] have l: "l = number_plus_one level" by blast
  show ?case
  proof (cases "b1 = []")
    case True
    with block render_rows_hd[of \<sigma> "path @ [k]" c l]
    have "fst r = path @ [k]" and "fst (snd r) = l" by auto
    with l xs show ?thesis by auto
  next
    case False
    from "1.IH"[OF el refl refl block False] obtain r'
      where "r' \<in> set b1" "fst r' = butlast (fst r)"
        "fst (snd r) = number_plus_one (fst (snd r'))"
      by blast
    with xs xs' show ?thesis by auto
  qed
qed

lemma number_plus_one_exact:
  "level < 9007199254740992 \<Longrightarrow> number_plus_one level = level + 1"
  by (simp add: number_plus_one_def)

lemma number_plus_one_rounds:
  "number_plus_one 9007199254740992 = 9007199254740992"
  "number_plus_one 9007199254740994 = 9007199254740996"
  by (simp_all add: number_plus_one_def)

text \<open>
  Claim C9. While \<open>expanded\<close> holds, the child elements are the entries of \<open>children\<close> in
  their order, each with the level that \<open>level + 1\<close> evaluates to, which below \<open>2^53\<close>, where
  a number counts depth exactly, is \<open>level + 1\<close>; while it does not hold, there are none. In
  the rows of the mounted tree, every row but the first comes after the row of its parent
  instance, the one whose path is its own without the last key, and its level is what the
  parent's \<open>level + 1\<close> evaluates to, one more than the parent's below \<open>2^53\<close>.
\<close>

theorem children_rendered_in_order:
  "(expanded st \<longrightarrow>
      childLevels (TaxonomyLevel t level st) =
        map (\<lambda>(childKey, childTaxon). (childKey, childTaxon, number_plus_one level))
          (case taxon_children t of None \<Rightarrow> [] | Some cs \<Rightarrow> cs)) \<and>
   (level < 9007199254740992 \<longrightarrow> expanded st \<longrightarrow>
      childLevels (TaxonomyLevel t level st) =
        map (\<lambda>(childKey, childTaxon). (childKey, childTaxon, level + 1))
          (case taxon_children t of None \<Rightarrow> [] | Some cs \<Rightarrow> cs)) \<and>
   (\<not> expanded st \<longrightarrow> childLevels (TaxonomyLevel t level st) = []) \<and>
   (\<forall>xs r ys. render_rows \<sigma> path t level = xs @ r # ys \<longrightarrow> xs \<noteq> [] \<longrightarrow>
      (\<exists>r' \<in> set xs. fst r' = butlast (fst r) \<and>
         fst (snd r) = number_plus_one (fst (snd r')) \<and>
         (fst (snd r') < 9007199254740992 \<longrightarrow> fst (snd r) = Suc (fst (snd r')))))"
proof (intro conjI allI impI)
  fix xs r ys
  assume "render_rows \<sigma> path t level = xs @ r # ys" and "xs \<noteq> []"
  then obtain r' where "r' \<in> set xs" and "fst r' = butlast (fst r)"
    and "fst (snd r) = number_plus_one (fst (snd r'))"
    using parent_row_first by blast
  then show "\<exists>r' \<in> set xs. fst r' = butlast (fst r) \<and>
      fst (snd r) = number_plus_one (fst (snd r')) \<and>
      (fst (snd r') < 9007199254740992 \<longrightarrow> fst (snd r) = Suc (fst (snd r')))"
    using number_plus_one_exact[of "fst (snd r')"] by auto
qed (simp_all add: childLevels_eq number_plus_one_exact split: option.split)

lemma chain_rows:
  "render_rows all_expanded [] chain_root 0 =
     [([], 0, ''Fungi'', ''(Kingdom)''),
      ([''Chytridiomycota''], 1, ''Chytridiomycota'', ''(Phylum)''),
      ([''Chytridiomycota'', ''Chytridiomycetes''], 2, ''Chytridiomycetes'', ''(Class)'')]"
  apply (subst render_rows.simps)
  apply (simp add: chain_root_def all_expanded_def TaxonomyLevel_def number_plus_one_def)
  apply (subst render_rows.simps)
  apply (simp add: chain_phylum_def all_expanded_def TaxonomyLevel_def number_plus_one_def)
  apply (subst render_rows.simps)
  apply (simp add: chain_class_def all_expanded_def TaxonomyLevel_def)
  done

lemma two_orders_rows:
  "render_rows all_expanded [] class_two_orders 2 =
     [([], 2, ''Chytridiomycetes'', ''(Class)''),
      ([''Chytridiales''], 3, ''Chytridiales'', ''(Order)''),
      ([''Chytridiales'', ''Chytridium''], 4, ''Chytridium'', ''(Genus)''),
      ([''Rhizophydiales''], 3, ''Rhizophydiales'', ''(Order)'')]"
  apply (subst render_rows.simps)
  apply (simp add: class_two_orders_def all_expanded_def TaxonomyLevel_def number_plus_one_def)
  apply (subst render_rows.simps)
  apply (simp add: all_expanded_def TaxonomyLevel_def number_plus_one_def)
  apply (subst render_rows.simps)
  apply (simp add: genus_leaf_def all_expanded_def TaxonomyLevel_def)
  apply (subst render_rows.simps)
  apply (simp add: described_leaf_def all_expanded_def TaxonomyLevel_def)
  done

text \<open>
  The three-level chain, expanded at every level and then collapsed at the root, and a class
  with two orders: the first order and its genus come before the second order.
\<close>

theorem children_rendered_in_order_witness:
  "render_rows all_expanded [] chain_root 0 =
     [([], 0, ''Fungi'', ''(Kingdom)'')]
     @ ([''Chytridiomycota''], 1, ''Chytridiomycota'', ''(Phylum)'')
     # [([''Chytridiomycota'', ''Chytridiomycetes''], 2, ''Chytridiomycetes'', ''(Class)'')] \<and>
   render_rows all_expanded [] class_two_orders 2 =
     [([], 2, ''Chytridiomycetes'', ''(Class)''),
      ([''Chytridiales''], 3, ''Chytridiales'', ''(Order)''),
      ([''Chytridiales'', ''Chytridium''], 4, ''Chytridium'', ''(Genus)'')]
     @ ([''Rhizophydiales''], 3, ''Rhizophydiales'', ''(Order)'') # [] \<and>
   childLevels (TaxonomyLevel chain_root 0 (all_expanded []))
     = [(''Chytridiomycota'', chain_phylum, 1)] \<and>
   map fst (childLevels (TaxonomyLevel class_two_orders 2 (all_expanded [])))
     = [''Chytridiales'', ''Rhizophydiales''] \<and>
   map (\<lambda>e. snd (snd e)) (childLevels (TaxonomyLevel class_two_orders 2 (all_expanded [])))
     = [3, 3] \<and>
   childLevels (TaxonomyLevel chain_root 0 initial_hooks) = [] \<and>
   render_rows (\<lambda>path. initial_hooks) [] chain_root 0 = [([], 0, ''Fungi'', ''(Kingdom)'')]"
  using children_rendered_in_order[of "all_expanded []" chain_root 0 all_expanded "[]"]
    children_rendered_in_order[of "all_expanded []" class_two_orders 2 all_expanded "[]"]
    children_rendered_in_order[of initial_hooks chain_root 0 all_expanded "[]"]
  apply (simp add: chain_rows two_orders_rows)
  apply (subst render_rows.simps)
  apply (simp add: chain_root_def class_two_orders_def all_expanded_def initial_hooks_def
      TaxonomyLevel_def number_plus_one_def)
  done

end
